theory Spec2Isabelle
  imports Main "HOL-Library.Char_ord" "HOL-Library.List_Lexorder"
begin

section \<open>Python values and primitives used by both passes\<close>

text \<open>
  The two generators of \<^verbatim>\<open>pysmi/codegen\<close> are embedded as HOL functions:
  \<^verbatim>\<open>symtable.py\<close> (class SymtableCodeGen, the symbol table builder) and
  \<^verbatim>\<open>jsondoc.py\<close> (class JsonCodeGen, the document generator).
  Every \<^verbatim>\<open>raise\<close> of the source and every exception the interpreter itself
  raises on the modelled paths is a value of type \<open>error\<close>; a function that can raise
  returns \<open>error + 'a\<close> with \<open>Inl\<close> the exception.
\<close>

datatype semantic =
    DuplicateSymbol string            \<comment> \<open>'Duplicate symbol found: %s'\<close>
  | NoModule string                   \<comment> \<open>'no module "%s" in symbolTable'\<close>
  | NoSymbol string string            \<comment> \<open>'no symbol "%s" in module "%s"'\<close>
  | UnknownType string                \<comment> \<open>'unknown type for symbol "%s"'\<close>
  | EmptyBinary                       \<comment> \<open>'empty binary string to int conversion'\<close>
  | EmptyHex                          \<comment> \<open>'empty hex string to int conversion'\<close>
  | NoSuchBit string string           \<comment> \<open>'no such bit as "%s" for symbol "%s"'\<close>
  | UnknownDefvalType string          \<comment> \<open>'unknown type "%s" for defval "%s" of symbol "%s"'\<close>
  | UnknownParents "string list"      \<comment> \<open>'Unknown parents for symbols: %s'\<close>
  | UnknownParentSymbol string        \<comment> \<open>'Unknown parent symbol: %s'\<close>

datatype error =
    PySmiSemanticError semantic
  | PySmiCodegenError string          \<comment> \<open>'No generated code for symbol %s'\<close>
  | RecursionError                    \<comment> \<open>the interpreter's recursion limit is exhausted\<close>
  | KeyError
  | TypeError
  | IndexError
  | ValueError
  | AttributeError

text \<open>\<^verbatim>\<open>str(n)\<close> for a Python int, \<^verbatim>\<open>sep.join(xs)\<close> and \<^verbatim>\<open>str(t)\<close> for a tuple of ints.\<close>

definition digit_char :: "nat \<Rightarrow> char" where
  "digit_char d = (''0123456789abcdef'') ! d"

fun show_nat :: "nat \<Rightarrow> string" where
  "show_nat n = (if n < 10 then [digit_char n] else show_nat (n div 10) @ [digit_char (n mod 10)])"

declare show_nat.simps [simp del]

definition show_int :: "int \<Rightarrow> string" where
  "show_int i = (if i < 0 then CHR ''-'' # show_nat (nat (- i)) else show_nat (nat i))"

fun show_hex :: "nat \<Rightarrow> string" where
  "show_hex n = (if n < 16 then [digit_char n] else show_hex (n div 16) @ [digit_char (n mod 16)])"

declare show_hex.simps [simp del]

fun join :: "string \<Rightarrow> string list \<Rightarrow> string" where
  "join sep [] = []"
| "join sep [x] = x"
| "join sep (x # y # ys) = x @ sep @ join sep (y # ys)"

definition show_tuple :: "int list \<Rightarrow> string" where
  "show_tuple xs =
     (case xs of
        [] \<Rightarrow> ''()''
      | [x] \<Rightarrow> ''('' @ show_int x @ '',)''
      | _ \<Rightarrow> ''('' @ join '', '' (map show_int xs) @ '')'')"

text \<open>
  \<^verbatim>\<open>int(s, base)\<close> on a payload of digits. Python's \<^verbatim>\<open>int\<close> also accepts a sign,
  surrounding blanks, underscores and a base prefix; the payloads here are the digits
  between the quotes of a MIB binary or hex string, and any other payload is a
  \<open>ValueError\<close> in this model.
\<close>

definition digit_val :: "char \<Rightarrow> nat option" where
  "digit_val c =
     (let k = of_char c :: nat in
      if 48 \<le> k \<and> k \<le> 57 then Some (k - 48)
      else if 97 \<le> k \<and> k \<le> 102 then Some (k - 87)
      else if 65 \<le> k \<and> k \<le> 70 then Some (k - 55)
      else None)"

fun parse_digits :: "nat \<Rightarrow> nat \<Rightarrow> string \<Rightarrow> nat option" where
  "parse_digits base acc [] = Some acc"
| "parse_digits base acc (c # cs) =
     (case digit_val c of
        None \<Rightarrow> None
      | Some d \<Rightarrow> if d < base then parse_digits base (acc * base + d) cs else None)"

definition py_int :: "nat \<Rightarrow> string \<Rightarrow> error + int" where
  "py_int base s =
     (if s = [] then Inl ValueError
      else case parse_digits base 0 s of None \<Rightarrow> Inl ValueError | Some n \<Rightarrow> Inr (int n))"

text \<open>\<^verbatim>\<open>int(s)\<close> on a decimal literal with an optional sign.\<close>

definition py_int_dec :: "string \<Rightarrow> error + int" where
  "py_int_dec s =
     (case s of
        [] \<Rightarrow> Inl ValueError
      | c # cs \<Rightarrow>
          if c = CHR ''-'' then (case py_int 10 cs of Inl e \<Rightarrow> Inl e | Inr n \<Rightarrow> Inr (- n))
          else if c = CHR ''+'' then py_int 10 cs
          else py_int 10 s)"

text \<open>
  \<^verbatim>\<open>JsonCodeGen.transOpers\<close>: \<^verbatim>\<open>symbol.replace('-', '_')\<close>.
  \<^verbatim>\<open>SymtableCodeGen.transOpers\<close> first prefixes a Python keyword with \<^verbatim>\<open>pysmi_\<close>;
  \<open>kwlist\<close> is \<^verbatim>\<open>keyword.kwlist\<close> of Python 3.
\<close>

definition replace_hyphen :: "string \<Rightarrow> string" where
  "replace_hyphen s = map (\<lambda>c. if c = CHR ''-'' then CHR ''_'' else c) s"

definition transOpers :: "string \<Rightarrow> string" where
  "transOpers symbol = replace_hyphen symbol"

definition kwlist :: "string list" where
  "kwlist = [''False'', ''None'', ''True'', ''and'', ''as'', ''assert'', ''async'', ''await'',
     ''break'', ''class'', ''continue'', ''def'', ''del'', ''elif'', ''else'', ''except'',
     ''finally'', ''for'', ''from'', ''global'', ''if'', ''import'', ''in'', ''is'', ''lambda'',
     ''nonlocal'', ''not'', ''or'', ''pass'', ''raise'', ''return'', ''try'', ''while'',
     ''with'', ''yield'']"

definition iskeyword :: "string \<Rightarrow> bool" where
  "iskeyword s = (s \<in> set kwlist)"

definition transOpers_stb :: "string \<Rightarrow> string" where
  "transOpers_stb symbol =
     replace_hyphen (if iskeyword symbol then ''pysmi_'' @ symbol else symbol)"

text \<open>
  \<^verbatim>\<open>isBinary\<close> and \<^verbatim>\<open>isHex\<close> on a non-empty \<^verbatim>\<open>str\<close> (\<^verbatim>\<open>s[0]\<close> raises
  IndexError on the empty one, which the callers below check first), and the payload
  \<^verbatim>\<open>s[1:-2]\<close>.
\<close>

definition quote_char :: char where
  "quote_char = CHR 0x27"

definition dquote_char :: char where
  "dquote_char = CHR 0x22"

definition last2 :: "string \<Rightarrow> string" where
  "last2 s = drop (length s - 2) s"

definition isBinary :: "string \<Rightarrow> bool" where
  "isBinary s = (hd s = quote_char \<and> last2 s \<in> {[quote_char, CHR ''b''], [quote_char, CHR ''B'']})"

definition isHex :: "string \<Rightarrow> bool" where
  "isHex s = (hd s = quote_char \<and> last2 s \<in> {[quote_char, CHR ''h''], [quote_char, CHR ''H'']})"

definition payload :: "string \<Rightarrow> string" where
  "payload s = take (length s - 3) (tl s)"

section \<open>Symbol tables\<close>

text \<open>
  An OID reference is a tuple whose parts are ints or \<^verbatim>\<open>(name, module)\<close> pairs. A syntax
  reference is \<^verbatim>\<open>((typeName, module), subtype)\<close>; the subtype the symbol table builder
  stores is a \<^verbatim>\<open>str\<close> (the empty string when there is no constraint, the type name for a
  fake column) or a \<^verbatim>\<open>list\<close> of \<^verbatim>\<open>(name, number)\<close> pairs (enumerations and bits).
\<close>

datatype oidpart = OidNum int | OidRef string string

type_synonym symtype = "string \<times> string"

datatype subtype = SubStr string | SubList "(string \<times> int) list"

type_synonym syntax_ref = "symtype \<times> subtype"

text \<open>
  The raw DEFVAL literal of the AST: an int, a \<^verbatim>\<open>str\<close> (quoted string, hex or binary
  string, or identifier) or a list of bit names.
\<close>

datatype defval = DInt int | DStr string | DBits "string list"

text \<open>
  A symbol table entry is the dict \<^verbatim>\<open>symProps\<close>; the keys \<^verbatim>\<open>oid\<close>, \<^verbatim>\<open>syntax\<close> and
  \<^verbatim>\<open>defval\<close> are absent for some kinds. The builder stores under \<^verbatim>\<open>defval\<close> a text
  rendering of the literal that nothing in the two generators reads back; the entry
  keeps the literal itself here.
\<close>

record symprops =
  sp_type :: string
  sp_oid :: "oidpart list option"
  sp_syntax :: "syntax_ref option"
  sp_origName :: string
  sp_defval :: "defval option"

text \<open>
  The symbol table of one module: the entries by normalized name, and the lists stored
  under the keys \<^verbatim>\<open>_symtable_order\<close>, \<^verbatim>\<open>_symtable_cols\<close>, \<^verbatim>\<open>_symtable_rows\<close>
  (no MIB identifier starts with an underscore, so these keys never meet a symbol name).
  \<open>symtabs\<close> is the \<^verbatim>\<open>symbolTable\<close> argument, by module name.
\<close>

record modsymtab =
  st_syms :: "string \<rightharpoonup> symprops"
  st_order :: "string list"
  st_cols :: "string list"
  st_rows :: "string list"

type_synonym symtabs = "string \<rightharpoonup> modsymtab"

definition baseTypes :: "string list" where
  "baseTypes = [''Integer'', ''Integer32'', ''Bits'', ''ObjectIdentifier'', ''OctetString'']"

section \<open>Shared lowering: OID resolution and base-type resolution (jsondoc.py)\<close>

text \<open>
  \<^verbatim>\<open>JsonCodeGen.genNumericOid\<close>. The first argument is the number of interpreter
  frames still available: the source recurses with no bound of its own, so the only
  bound is the interpreter's recursion limit, and a call made with no frame left raises
  RecursionError. The loop over the parts runs left to right and stops at the first
  raise. An entry without the key \<^verbatim>\<open>oid\<close> (a type declaration) raises KeyError.
\<close>

fun genNumericOid :: "nat \<Rightarrow> symtabs \<Rightarrow> oidpart list \<Rightarrow> error + int list" where
  "genNumericOid 0 st oid = Inl RecursionError"
| "genNumericOid (Suc d) st [] = Inr []"
| "genNumericOid (Suc d) st (OidNum k # ps) =
     (case genNumericOid (Suc d) st ps of Inl e \<Rightarrow> Inl e | Inr r \<Rightarrow> Inr (k # r))"
| "genNumericOid (Suc d) st (OidRef parent module # ps) =
     (if parent = ''iso'' then
        (case genNumericOid (Suc d) st ps of Inl e \<Rightarrow> Inl e | Inr r \<Rightarrow> Inr (1 # r))
      else case st module of
        None \<Rightarrow> Inl (PySmiSemanticError (NoModule module))
      | Some mt \<Rightarrow>
         (case st_syms mt parent of
            None \<Rightarrow> Inl (PySmiSemanticError (NoSymbol parent module))
          | Some ent \<Rightarrow>
             (case sp_oid ent of
                None \<Rightarrow> Inl KeyError
              | Some poid \<Rightarrow>
                 (case genNumericOid d st poid of
                    Inl e \<Rightarrow> Inl e
                  | Inr r \<Rightarrow>
                     (case genNumericOid (Suc d) st ps of
                        Inl e \<Rightarrow> Inl e
                      | Inr r' \<Rightarrow> Inr (r @ r'))))))"

text \<open>
  Writing the syntax of one entry back into the store: \<^verbatim>\<open>symSubtype += baseSymSubtype\<close>
  extends, in place, the list object that the entry's \<^verbatim>\<open>syntax\<close> tuple holds.
\<close>

definition set_syntax :: "symtabs \<Rightarrow> string \<Rightarrow> string \<Rightarrow> syntax_ref \<Rightarrow> symtabs" where
  "set_syntax st module symName syn =
     (case st module of
        None \<Rightarrow> st
      | Some mt \<Rightarrow>
         (case st_syms mt symName of
            None \<Rightarrow> st
          | Some ent \<Rightarrow>
              st(module \<mapsto> mt\<lparr>st_syms := (st_syms mt)(symName \<mapsto> ent\<lparr>sp_syntax := Some syn\<rparr>)\<rparr>)))"

text \<open>
  \<^verbatim>\<open>JsonCodeGen.getBaseType\<close>, with the symbol tables threaded through: the result
  is the returned pair and the tables as the call leaves them. Every raise happens
  before the first write, so a raising call leaves the tables as they were. The first
  argument counts the available frames as in \<open>genNumericOid\<close>. Distinct entries hold
  distinct list objects (the builder takes each from its own declaration).
\<close>

fun getBaseType :: "nat \<Rightarrow> symtabs \<Rightarrow> string \<Rightarrow> string \<Rightarrow> error + (syntax_ref \<times> symtabs)" where
  "getBaseType 0 st symName module = Inl RecursionError"
| "getBaseType (Suc d) st symName module =
     (case st module of
        None \<Rightarrow> Inl (PySmiSemanticError (NoModule module))
      | Some mt \<Rightarrow>
         (case st_syms mt symName of
            None \<Rightarrow> Inl (PySmiSemanticError (NoSymbol symName module))
          | Some ent \<Rightarrow>
             (case (case sp_syntax ent of None \<Rightarrow> (('''', ''''), SubStr '''') | Some syn \<Rightarrow> syn) of
                (symType, symSubtype) \<Rightarrow>
                  if fst symType = '''' then Inl (PySmiSemanticError (UnknownType symName))
                  else if fst symType \<in> set baseTypes then Inr ((symType, symSubtype), st)
                  else
                    (case getBaseType d st (fst symType) (snd symType) of
                       Inl e \<Rightarrow> Inl e
                     | Inr ((baseSymType, baseSymSubtype), st1) \<Rightarrow>
                        (case baseSymSubtype of
                           SubList bl \<Rightarrow>
                             (case symSubtype of
                                SubList sl \<Rightarrow>
                                  Inr ((baseSymType, SubList (sl @ bl)),
                                       set_syntax st1 module symName (symType, SubList (sl @ bl)))
                              | SubStr s \<Rightarrow> Inr ((baseSymType, SubList bl), st1))
                         | SubStr b \<Rightarrow> Inr ((baseSymType, symSubtype), st1))))))"

section \<open>The module AST\<close>

text \<open>
  A declaration is a tuple \<^verbatim>\<open>(clauseName, arg, ...)\<close>; \<^verbatim>\<open>prepData\<close> replaces, left
  to right, every argument that is itself a tagged tuple by the result of that tag's
  handler, and then the clause handler runs on the results. The datatypes below are
  the tuples the handlers of \<^verbatim>\<open>handlersTable\<close> take apart. The text clauses
  (DESCRIPTION, UNITS, MaxAccessPart, CONTACT-INFO, ORGANIZATION, LAST-UPDATED,
  Revisions, DISPLAY-HINT) read and write no generator state and never raise: a
  declaration carries each of them as the \<^verbatim>\<open>str\<close> (or list of \<^verbatim>\<open>str\<close>) that the
  document generator's handler returns, with the empty string for an absent clause;
  the symbol table builder ignores them.
\<close>

datatype oidel = OName string | ONum int | OPair string int

datatype lit = LInt int | LStr string

datatype range = R1 lit | R2 lit lit

datatype subtype_ast =
    EnumSpec "(string \<times> int) list"
  | IntegerSubType "range list"
  | OctetStringSubType "range list"

datatype syntax_ast =
    SimpleSyntax string "subtype_ast option"   \<comment> \<open>also ApplicationSyntax\<close>
  | BitsSyntax "(string \<times> int) list"          \<comment> \<open>BITS\<close>
  | ConceptualTable syntax_ast                 \<comment> \<open>conceptualTable, over a row\<close>
  | Row string                                 \<comment> \<open>row\<close>
  | SequenceSyntax "(string \<times> string) list"     \<comment> \<open>SEQUENCE\<close>

text \<open>An INDEX clause is a list of pairs whose second component is the index name.\<close>

type_synonym index_ast = "(nat \<times> string) list"

datatype rhs_ast =
    PlainSyntax syntax_ast                     \<comment> \<open>typeDeclarationRHS with one argument\<close>
  | TextualConvention string syntax_ast        \<comment> \<open>display hint and syntax\<close>

datatype decl =
    AgentCapabilitiesClause string string "oidel list"
  | ModuleIdentityClause string string string string string "string list" "oidel list"
  | ModuleComplianceClause string string "(string \<times> string list) list" "oidel list"
  | NotificationGroupClause string "string list" string "oidel list"
  | NotificationTypeClause string "string list" string "oidel list"
  | ObjectGroupClause string "string list" string "oidel list"
  | ObjectIdentityClause string string "oidel list"
  | ObjectTypeClause string syntax_ast string string string string "index_ast option"
      "defval option" "oidel list"
  | TrapTypeClause string "oidel list" "string list" string int
  | TypeDeclaration string "rhs_ast option"
  | ValueDeclaration string "oidel list"

text \<open>
  The \<^verbatim>\<open>ast\<close> argument of \<^verbatim>\<open>genCode\<close>: module name, imports (a dict from module to
  the list of imported symbols, in insertion order) and the declarations. The module
  OID is only logged.
\<close>

record module_ast =
  ast_moduleName :: string
  ast_imports :: "(string \<times> string list) list"
  ast_declarations :: "decl list"

text \<open>
  \<^verbatim>\<open>convertImportv2\<close> is an attribute of the base class AbstractCodeGen, which is
  not among the sources; it is a parameter of both \<^verbatim>\<open>genImports\<close>:
  module, then symbol, then the list of \<^verbatim>\<open>(newModule, newSymbol)\<close>.
\<close>

type_synonym convtab = "(string \<times> (string \<times> (string \<times> string) list) list) list"

section \<open>Documents\<close>

text \<open>
  The values the document generator puts into its records. \<open>JObj\<close> is a dict in
  insertion order (OrderedDict, or a dict literal); \<open>JBuiltinObject\<close> is the Python
  builtin \<^verbatim>\<open>object\<close>, which \<^verbatim>\<open>genTableIndex\<close> can store into a record and
  \<^verbatim>\<open>json.dumps\<close> cannot serialize.
\<close>

datatype json =
    JStr string
  | JInt int
  | JList "json list"
  | JObj "(string \<times> json) list"
  | JBuiltinObject

text \<open>\<^verbatim>\<open>d[k] = v\<close> on a dict in insertion order: an existing key keeps its place.\<close>

fun od_set :: "'k \<Rightarrow> 'v \<Rightarrow> ('k \<times> 'v) list \<Rightarrow> ('k \<times> 'v) list" where
  "od_set k v [] = [(k, v)]"
| "od_set k v ((k', v') # kvs) =
     (if k' = k then (k, v) # kvs else (k', v') # od_set k v kvs)"

text \<open>\<^verbatim>\<open>dict(pairs)\<close> and \<^verbatim>\<open>d.update(pairs)\<close>.\<close>

definition od_update :: "('k \<times> 'v) list \<Rightarrow> ('k \<times> 'v) list \<Rightarrow> ('k \<times> 'v) list" where
  "od_update d pairs = fold (\<lambda>(k, v) acc. od_set k v acc) pairs d"

text \<open>Python truthiness of a value.\<close>

fun truthy :: "json \<Rightarrow> bool" where
  "truthy (JStr s) = (s \<noteq> [])"
| "truthy (JInt i) = (i \<noteq> 0)"
| "truthy (JList xs) = (xs \<noteq> [])"
| "truthy (JObj kvs) = (kvs \<noteq> [])"
| "truthy JBuiltinObject = True"

text \<open>\<^verbatim>\<open>json.dumps\<close> raises TypeError on a value that is not JSON.\<close>

fun serializable :: "json \<Rightarrow> bool" where
  "serializable (JStr s) = True"
| "serializable (JInt i) = True"
| "serializable (JList xs) = list_all serializable xs"
| "serializable (JObj kvs) = list_all (\<lambda>kv. serializable (snd kv)) kvs"
| "serializable JBuiltinObject = False"

text \<open>Sequencing of calls that can raise.\<close>

fun ebind :: "error + 'a \<Rightarrow> ('a \<Rightarrow> error + 'b) \<Rightarrow> error + 'b" where
  "ebind (Inl e) f = Inl e"
| "ebind (Inr x) f = f x"

section \<open>The document generator (jsondoc.py, class JsonCodeGen)\<close>

text \<open>
  The instance state, passed through every handler: \<^verbatim>\<open>_rows\<close>, \<^verbatim>\<open>_cols\<close>,
  \<^verbatim>\<open>_seenSyms\<close>, \<^verbatim>\<open>_importMap\<close>, \<^verbatim>\<open>_out\<close>, \<^verbatim>\<open>moduleName[0]\<close>,
  \<^verbatim>\<open>genRules['text']\<close>, \<^verbatim>\<open>symbolTable\<close> and \<^verbatim>\<open>fakeidx\<close>.
\<close>

record dgstate =
  dg_rows :: "string set"
  dg_cols :: "(string \<times> string) list"
  dg_seenSyms :: "string set"
  dg_importMap :: "string \<rightharpoonup> string"
  dg_out :: "string \<rightharpoonup> json"
  dg_moduleName :: string
  dg_genTexts :: bool
  dg_symbolTable :: symtabs
  dg_fakeidx :: nat

definition typeClasses_dg :: "string \<Rightarrow> string" where
  "typeClasses_dg t =
     (case map_of [(''NetworkAddress'', ''IpAddress''), (''nullSpecific'', ''zeroDotZero''),
         (''ipRoutingTable'', ''ipRouteTable''),
         (''snmpEnableAuthTraps'', ''snmpEnableAuthenTraps'')] t of
        None \<Rightarrow> t | Some t' \<Rightarrow> t')"

definition smiv1IdxTypes :: "string list" where
  "smiv1IdxTypes = [''INTEGER'', ''OCTET STRING'', ''IPADDRESS'', ''NETWORKADDRESS'']"

text \<open>\<^verbatim>\<open>self._importMap.get(name, self.moduleName[0])\<close>.\<close>

definition import_or_self :: "dgstate \<Rightarrow> string \<Rightarrow> string" where
  "import_or_self s name = (case dg_importMap s name of None \<Rightarrow> dg_moduleName s | Some m \<Rightarrow> m)"

text \<open>\<^verbatim>\<open>JsonCodeGen.regSym\<close> with \<^verbatim>\<open>addToExports\<close> inlined.\<close>

definition regSym_dg :: "string \<Rightarrow> json \<Rightarrow> dgstate \<Rightarrow> error + dgstate" where
  "regSym_dg symbol outDict s =
     (if symbol \<in> dg_seenSyms s \<and> dg_importMap s symbol = None
      then Inl (PySmiSemanticError (DuplicateSymbol symbol))
      else Inr (s\<lparr>dg_seenSyms := insert symbol (dg_seenSyms s),
                  dg_out := (dg_out s)(symbol \<mapsto> outDict)\<rparr>))"

text \<open>
  \<^verbatim>\<open>JsonCodeGen.genOid\<close>: the dotted string of the resolved OID and the last name
  among the elements. \<open>lim\<close> is the number of frames \<open>genNumericOid\<close> may use.
\<close>

definition oid_part_dg :: "dgstate \<Rightarrow> oidel \<Rightarrow> oidpart" where
  "oid_part_dg s el =
     (case el of
        OName n \<Rightarrow> OidRef (transOpers n) (import_or_self s (transOpers n))
      | ONum k \<Rightarrow> OidNum k
      | OPair n k \<Rightarrow> OidNum k)"

definition oid_parent_dg :: "oidel list \<Rightarrow> string" where
  "oid_parent_dg els = fold (\<lambda>el p. case el of OName n \<Rightarrow> transOpers n | _ \<Rightarrow> p) els []"

definition genOid_dg :: "nat \<Rightarrow> dgstate \<Rightarrow> oidel list \<Rightarrow> error + (string \<times> string)" where
  "genOid_dg lim s els =
     (case genNumericOid lim (dg_symbolTable s) (map (oid_part_dg s) els) of
        Inl e \<Rightarrow> Inl e
      | Inr nums \<Rightarrow> Inr (join ''.'' (map show_int nums), oid_parent_dg els))"

text \<open>\<^verbatim>\<open>JsonCodeGen.str2int\<close>, and the two range handlers built on it.\<close>

definition str2int :: "lit \<Rightarrow> error + int" where
  "str2int l =
     (case l of
        LInt i \<Rightarrow> Inr i
      | LStr s \<Rightarrow>
          if s = [] then Inl IndexError
          else if isBinary s then
            (if payload s \<noteq> [] then py_int 2 (payload s)
             else Inl (PySmiSemanticError EmptyBinary))
          else if isHex s then
            (if payload s \<noteq> [] then py_int 16 (payload s)
             else Inl (PySmiSemanticError EmptyHex))
          else py_int_dec s)"

definition gen_range :: "range \<Rightarrow> error + json" where
  "gen_range rng =
     (case (case rng of R1 a \<Rightarrow> (a, a) | R2 a b \<Rightarrow> (a, b)) of
        (vmin, vmax) \<Rightarrow>
          ebind (str2int vmin) (\<lambda>lo.
          ebind (str2int vmax) (\<lambda>hi.
          Inr (JObj [(''min'', JInt lo), (''max'', JInt hi)]))))"

fun gen_ranges :: "range list \<Rightarrow> error + json list" where
  "gen_ranges [] = Inr []"
| "gen_ranges (r # rs) =
     ebind (gen_range r) (\<lambda>j. ebind (gen_ranges rs) (\<lambda>js. Inr (j # js)))"

definition genIntegerSubType :: "range list \<Rightarrow> error + json" where
  "genIntegerSubType rs = ebind (gen_ranges rs) (\<lambda>js. Inr (JObj [(''range'', JList js)]))"

definition genOctetStringSubType :: "range list \<Rightarrow> error + json" where
  "genOctetStringSubType rs = ebind (gen_ranges rs) (\<lambda>js. Inr (JObj [(''size'', JList js)]))"

text \<open>\<^verbatim>\<open>dict(bits)\<close> as a JSON object, \<^verbatim>\<open>genBits\<close> and \<^verbatim>\<open>genEnumSpec\<close>.\<close>

definition dict_of_pairs :: "(string \<times> int) list \<Rightarrow> json" where
  "dict_of_pairs items = JObj (od_update [] (map (\<lambda>(n, v). (n, JInt v)) items))"

definition genBits_dg :: "(string \<times> int) list \<Rightarrow> string \<times> json" where
  "genBits_dg bits = (''Bits'', dict_of_pairs bits)"

definition genEnumSpec_dg :: "(string \<times> int) list \<Rightarrow> json" where
  "genEnumSpec_dg items = JObj [(''enumeration'', dict_of_pairs items)]"

definition genSubtype_dg :: "subtype_ast \<Rightarrow> error + json" where
  "genSubtype_dg sub =
     (case sub of
        EnumSpec items \<Rightarrow> Inr (genEnumSpec_dg items)
      | IntegerSubType rs \<Rightarrow> genIntegerSubType rs
      | OctetStringSubType rs \<Rightarrow> genOctetStringSubType rs)"

text \<open>
  \<^verbatim>\<open>JsonCodeGen.genSimpleSyntax\<close> on \<^verbatim>\<open>data = [objType]\<close> or
  \<^verbatim>\<open>[objType, subtype]\<close>, the subtype already lowered.
\<close>

definition genSimpleSyntax_dg :: "string \<Rightarrow> json option \<Rightarrow> string \<times> json" where
  "genSimpleSyntax_dg objType sub =
     (let objType' = transOpers (typeClasses_dg objType);
          subtype = (case sub of None \<Rightarrow> JObj [] | Some j \<Rightarrow> if truthy j then j else JObj []);
          outDict = [(''type'', JStr objType'), (''class'', JStr ''type'')]
      in (''MibScalar'',
          JObj (if truthy subtype then od_set ''constraints'' subtype outDict else outDict)))"

text \<open>
  The syntax handlers, applied inside out as \<^verbatim>\<open>prepData\<close> does:
  \<^verbatim>\<open>genSimpleSyntax\<close>, \<^verbatim>\<open>genBits\<close>, \<^verbatim>\<open>genConceptualTable\<close>, \<^verbatim>\<open>genRow\<close> and
  \<^verbatim>\<open>genSequence\<close>. In \<^verbatim>\<open>genConceptualTable\<close>, \<^verbatim>\<open>row[1][-2:]\<close> on a dict raises
  TypeError.
\<close>

fun genSyntax_dg :: "dgstate \<Rightarrow> syntax_ast \<Rightarrow> error + ((string \<times> json) \<times> dgstate)" where
  "genSyntax_dg s (SimpleSyntax objType None) = Inr (genSimpleSyntax_dg objType None, s)"
| "genSyntax_dg s (SimpleSyntax objType (Some sub)) =
     ebind (genSubtype_dg sub) (\<lambda>j. Inr (genSimpleSyntax_dg objType (Some j), s))"
| "genSyntax_dg s (BitsSyntax bits) = Inr (genBits_dg bits, s)"
| "genSyntax_dg s (Row name) =
     (case dg_symbolTable s (dg_moduleName s) of
        None \<Rightarrow> Inl KeyError
      | Some mt \<Rightarrow>
          if transOpers name \<in> set (st_rows mt) then Inr ((''MibTableRow'', JStr []), s)
          else Inr (genSimpleSyntax_dg name None, s))"
| "genSyntax_dg s (SequenceSyntax cols) =
     Inr (([], JStr []), s\<lparr>dg_cols := od_update (dg_cols s) cols\<rparr>)"
| "genSyntax_dg s (ConceptualTable r) =
     ebind (genSyntax_dg s r) (\<lambda>(row, s1).
       if \<not> truthy (snd row) then Inr ((''MibTable'', JStr []), s1)
       else case snd row of
         JStr t \<Rightarrow>
           if last2 t = ''()''
           then Inr ((''MibTable'', JStr []),
                     s1\<lparr>dg_rows := insert (take (length t - 2) t) (dg_rows s1)\<rparr>)
           else Inr ((''MibTable'', JStr []), s1)
       | JList xs \<Rightarrow> Inr ((''MibTable'', JStr []), s1)
       | _ \<Rightarrow> Inl TypeError)"

text \<open>
  \<^verbatim>\<open>JsonCodeGen.genTableIndex\<close>. The inner \<^verbatim>\<open>genFakeSyms\<close> returns the dict
  \<^verbatim>\<open>{'module': self.moduleName[0], object: objType}\<close>, whose second key is the builtin
  \<^verbatim>\<open>object\<close>; the caller unpacks that dict into two names, which binds them to its
  keys in insertion order. \<open>pykey\<close> is a str or the builtin.
\<close>

datatype pykey = KStr string | KObject

definition genFakeSyms :: "dgstate \<Rightarrow> nat \<Rightarrow> string \<Rightarrow> (pykey \<times> string) list" where
  "genFakeSyms s fakeidx idxType =
     (let fakeSymName = ''pysmiFakeCol'' @ show_nat fakeidx;
          objType = transOpers (typeClasses_dg idxType)
      in [(KStr ''module'', dg_moduleName s), (KObject, objType)])"

definition index_entry :: "dgstate \<Rightarrow> pykey \<Rightarrow> json" where
  "index_entry s idxName =
     (case idxName of
        KStr n \<Rightarrow> JObj [(''module'', JStr (import_or_self s n)), (''object'', JStr n)]
      | KObject \<Rightarrow> JObj [(''module'', JStr (dg_moduleName s)), (''object'', JBuiltinObject)])"

fun genTableIndex_loop ::
  "index_ast \<Rightarrow> dgstate \<Rightarrow> json list \<Rightarrow> pykey list \<Rightarrow> pykey list
     \<Rightarrow> error + ((json list \<times> pykey list \<times> pykey list) \<times> dgstate)" where
  "genTableIndex_loop [] s idxStrlist fakeStrlist fakeSyms =
     Inr ((idxStrlist, fakeStrlist, fakeSyms), s)"
| "genTableIndex_loop (idx # rest) s idxStrlist fakeStrlist fakeSyms =
     (if snd idx \<in> set smiv1IdxTypes then
        (case map fst (genFakeSyms s (dg_fakeidx s) (snd idx)) of
           [fakeSymStr, idxName] \<Rightarrow>
             genTableIndex_loop rest (s\<lparr>dg_fakeidx := dg_fakeidx s + 1\<rparr>)
               (idxStrlist @ [index_entry s idxName]) (fakeStrlist @ [fakeSymStr])
               (fakeSyms @ [idxName])
         | _ \<Rightarrow> Inl ValueError)
      else genTableIndex_loop rest s (idxStrlist @ [index_entry s (KStr (snd idx))])
             fakeStrlist fakeSyms)"

definition genTableIndex ::
  "dgstate \<Rightarrow> index_ast \<Rightarrow> error + ((json list \<times> pykey list \<times> pykey list) \<times> dgstate)" where
  "genTableIndex s indexes = genTableIndex_loop indexes s [] [] []"

text \<open>
  \<^verbatim>\<open>JsonCodeGen.genDefVal\<close>. The branches follow the source's \<^verbatim>\<open>if\<close>/\<^verbatim>\<open>elif\<close>
  chain; \<open>defvalType\<close> is the pair that \<open>getBaseType\<close> returned. In the quoted-string
  branch the source compares that pair with the \<^verbatim>\<open>str\<close> \<^verbatim>\<open>'OctetString'\<close>
  (\<^verbatim>\<open>defvalType != 'OctetString'\<close>); a tuple and a \<^verbatim>\<open>str\<close> are never equal in Python,
  which is what \<open>tuple_ne_str\<close> computes.
\<close>

definition tuple_ne_str :: "syntax_ref \<Rightarrow> string \<Rightarrow> bool" where
  "tuple_ne_str t s = True"

definition default_of :: "(string \<times> json) list \<Rightarrow> json" where
  "default_of outDict = JObj [(''default'', JObj outDict)]"

definition raw_defval :: "defval \<Rightarrow> json" where
  "raw_defval d =
     (case d of DInt i \<Rightarrow> JInt i | DStr v \<Rightarrow> JStr v | DBits bs \<Rightarrow> JList (map JStr bs))"

definition is_integer_type :: "syntax_ref \<Rightarrow> bool" where
  "is_integer_type defvalType = (fst (fst defvalType) \<in> {''Integer32'', ''Integer''})"

text \<open>
  The OID branch: \<^verbatim>\<open>str(self.genNumericOid(self.symbolTable[module][defval]['oid']))\<close>
  inside \<^verbatim>\<open>try\<close> with a bare \<^verbatim>\<open>except\<close>, which turns every exception into the
  SemanticError.
\<close>

definition defval_oid :: "nat \<Rightarrow> dgstate \<Rightarrow> string \<Rightarrow> error + json" where
  "defval_oid lim s v =
     (let module = import_or_self s v;
          failed = Inl (PySmiSemanticError (NoSymbol v module))
      in case dg_symbolTable s module of
           None \<Rightarrow> failed
         | Some mt \<Rightarrow>
            (case st_syms mt v of
               None \<Rightarrow> failed
             | Some ent \<Rightarrow>
                (case sp_oid ent of
                   None \<Rightarrow> failed
                 | Some poid \<Rightarrow>
                    (case genNumericOid lim (dg_symbolTable s) poid of
                       Inl e \<Rightarrow> failed
                     | Inr nums \<Rightarrow>
                         Inr (default_of [(''value'', JStr (show_tuple nums)),
                                          (''format'', JStr ''oid'')])))))"

text \<open>
  The Bits branch: \<^verbatim>\<open>bits = dict(defvalType[1])\<close>, then the loop over \<^verbatim>\<open>defval\<close>
  (the names of a list, or the characters of a \<^verbatim>\<open>str\<close>). The result is returned
  without the \<^verbatim>\<open>default\<close> wrapper.
\<close>

fun defval_bits_loop ::
  "(string \<times> int) list \<Rightarrow> string \<Rightarrow> string list \<Rightarrow> (string \<times> int) list
     \<Rightarrow> error + (string \<times> int) list" where
  "defval_bits_loop bits objname [] defvalBits = Inr defvalBits"
| "defval_bits_loop bits objname (bitName # rest) defvalBits =
     (case map_of bits bitName of
        Some bitValue \<Rightarrow> defval_bits_loop bits objname rest (defvalBits @ [(bitName, bitValue)])
      | None \<Rightarrow> Inl (PySmiSemanticError (NoSuchBit bitName objname)))"

definition defval_bits :: "syntax_ref \<Rightarrow> string list \<Rightarrow> string \<Rightarrow> error + json" where
  "defval_bits defvalType names objname =
     ebind (case snd defvalType of
              SubList l \<Rightarrow> Inr (od_update [] l)
            | SubStr t \<Rightarrow> if t = [] then Inr [] else Inl ValueError) (\<lambda>bits.
     ebind (defval_bits_loop bits objname names []) (\<lambda>defvalBits.
     Inr (JObj [(''value'', snd (genBits_dg defvalBits)), (''format'', JStr ''bits'')])))"

definition is_enum_member :: "syntax_ref \<Rightarrow> string \<Rightarrow> bool" where
  "is_enum_member defvalType v =
     (case snd defvalType of SubList l \<Rightarrow> v \<in> fst ` set l | SubStr t \<Rightarrow> False)"

definition lowerDefVal ::
  "nat \<Rightarrow> dgstate \<Rightarrow> syntax_ref \<Rightarrow> defval \<Rightarrow> string \<Rightarrow> error + json" where
  "lowerDefVal lim s defvalType defval objname =
     (case defval of
        DInt i \<Rightarrow> Inr (default_of [(''value'', JInt i), (''format'', JStr ''decimal'')])
      | DStr v \<Rightarrow>
          if v = [] then Inl IndexError
          else if isHex v then
            (if is_integer_type defvalType then
               ebind (py_int 16 (payload v)) (\<lambda>n.
               Inr (default_of [(''value'', JStr (show_int n)), (''format'', JStr ''hex'')]))
             else Inr (default_of [(''value'', JStr (payload v)), (''format'', JStr ''hex'')]))
          else if isBinary v then
            (if is_integer_type defvalType then
               ebind (py_int 2 (if payload v = [] then ''0'' else payload v)) (\<lambda>n.
               Inr (default_of [(''value'', JStr (show_int n)), (''format'', JStr ''bin'')]))
             else
               ebind (if payload v = [] then Inr []
                      else ebind (py_int 2 (payload v)) (\<lambda>n. Inr (show_hex (nat n)))) (\<lambda>hexval.
               Inr (default_of [(''value'', JStr hexval), (''format'', JStr ''hex'')])))
          else if hd v = last v \<and> hd v = dquote_char then
            (if butlast (tl v) = [] \<and> tuple_ne_str defvalType ''OctetString''
             then Inr (JObj [])
             else Inr (default_of [(''value'', JStr (butlast (tl v))),
                                   (''format'', JStr ''string'')]))
          else
            (case dg_symbolTable s (dg_moduleName s) of
               None \<Rightarrow> Inl KeyError
             | Some mt \<Rightarrow>
                 if fst (fst defvalType) = ''ObjectIdentifier'' \<and>
                    (st_syms mt v \<noteq> None \<or> dg_importMap s v \<noteq> None)
                 then defval_oid lim s v
                 else if is_integer_type defvalType \<and> is_enum_member defvalType v
                 then Inr (default_of [(''value'', JStr v), (''format'', JStr ''enum'')])
                 else if fst (fst defvalType) = ''Bits''
                 then defval_bits defvalType (map (\<lambda>c. [c]) v) objname
                 else Inl (PySmiSemanticError (UnknownDefvalType objname)))
      | DBits bs \<Rightarrow>
          if bs = [] then Inl IndexError
          else if hd bs = last bs \<and> hd bs = [dquote_char] then
            Inr (default_of [(''value'', JList (map JStr (butlast (tl bs)))),
                             (''format'', JStr ''string'')])
          else if fst (fst defvalType) = ''ObjectIdentifier'' then Inl TypeError
          else if is_integer_type defvalType \<and> (case snd defvalType of SubList l \<Rightarrow> True | _ \<Rightarrow> False)
          then Inl TypeError
          else if fst (fst defvalType) = ''Bits'' then defval_bits defvalType bs objname
          else Inl (PySmiSemanticError (UnknownDefvalType objname)))"

text \<open>
  \<open>data\<close> is \<open>None\<close> when the declaration has no DEFVAL clause. The call of
  \<open>getBaseType\<close> leaves its writes in the symbol tables of the state.
\<close>

definition genDefVal :: "nat \<Rightarrow> dgstate \<Rightarrow> defval option \<Rightarrow> string \<Rightarrow> error + (json \<times> dgstate)" where
  "genDefVal lim s data objname =
     (case data of
        None \<Rightarrow> Inr (JObj [], s)
      | Some defval \<Rightarrow>
          if objname = [] then Inr (JList [raw_defval defval], s)
          else
            (case getBaseType lim (dg_symbolTable s) objname (dg_moduleName s) of
               Inl e \<Rightarrow> Inl e
             | Inr (defvalType, tabs) \<Rightarrow>
                 (case lowerDefVal lim (s\<lparr>dg_symbolTable := tabs\<rparr>) defvalType defval objname of
                    Inl e \<Rightarrow> Inl e
                  | Inr j \<Rightarrow> Inr (j, s\<lparr>dg_symbolTable := tabs\<rparr>))))"

subsection \<open>Clause handlers\<close>

definition put_if :: "bool \<Rightarrow> string \<Rightarrow> json \<Rightarrow> (string \<times> json) list \<Rightarrow> (string \<times> json) list" where
  "put_if c k v d = (if c then od_set k v d else d)"

definition object_refs :: "dgstate \<Rightarrow> string list \<Rightarrow> json" where
  "object_refs s objects =
     JList (map (\<lambda>obj. JObj [(''module'', JStr (dg_moduleName s)),
                              (''object'', JStr (transOpers obj))]) objects)"

text \<open>\<^verbatim>\<open>genObjects\<close>: \<^verbatim>\<open>[self.transOpers(obj) for obj in data[0]]\<close>.\<close>

definition genObjects_dg :: "string list \<Rightarrow> string list" where
  "genObjects_dg objs = map transOpers objs"

definition genCompliances_dg :: "dgstate \<Rightarrow> (string \<times> string list) list \<Rightarrow> json list" where
  "genCompliances_dg s mods =
     concat (map (\<lambda>(mname, compls).
        map (\<lambda>compl. JObj [(''object'', JStr (transOpers compl)),
                            (''module'', JStr (if mname = [] then dg_moduleName s else mname))])
            compls) mods)"

definition oid_record :: "string \<Rightarrow> string \<Rightarrow> string \<Rightarrow> (string \<times> json) list" where
  "oid_record name oidStr cls =
     [(''name'', JStr name), (''oid'', JStr oidStr), (''class'', JStr cls)]"

definition genAgentCapabilities_dg ::
  "nat \<Rightarrow> dgstate \<Rightarrow> string \<Rightarrow> string \<Rightarrow> oidel list \<Rightarrow> error + dgstate" where
  "genAgentCapabilities_dg lim s name description oid =
     ebind (genOid_dg lim s oid) (\<lambda>(oidStr, parentOid).
       regSym_dg (transOpers name)
         (JObj (put_if (dg_genTexts s \<and> description \<noteq> []) ''description'' (JStr description)
                  (oid_record (transOpers name) oidStr ''agentcapabilities''))) s)"

definition genModuleIdentity_dg ::
  "nat \<Rightarrow> dgstate \<Rightarrow> string \<Rightarrow> string \<Rightarrow> string \<Rightarrow> string \<Rightarrow> string \<Rightarrow> string list
     \<Rightarrow> oidel list \<Rightarrow> error + dgstate" where
  "genModuleIdentity_dg lim s name lastUpdated organization contactInfo description revisions oid =
     ebind (genOid_dg lim s oid) (\<lambda>(oidStr, parentOid).
       regSym_dg (transOpers name)
         (JObj
           (put_if (dg_genTexts s \<and> description \<noteq> []) ''description'' (JStr description)
           (put_if (dg_genTexts s \<and> contactInfo \<noteq> []) ''contactinfo'' (JStr contactInfo)
           (put_if (dg_genTexts s \<and> organization \<noteq> []) ''organization'' (JStr organization)
           (put_if (dg_genTexts s \<and> lastUpdated \<noteq> []) ''lastupdated'' (JStr lastUpdated)
           (put_if (revisions \<noteq> []) ''revisions'' (JList (map JStr revisions))
             (oid_record (transOpers name) oidStr ''moduleidentity''))))))) s)"

definition genModuleCompliance_dg ::
  "nat \<Rightarrow> dgstate \<Rightarrow> string \<Rightarrow> string \<Rightarrow> (string \<times> string list) list \<Rightarrow> oidel list
     \<Rightarrow> error + dgstate" where
  "genModuleCompliance_dg lim s name description compliances oid =
     ebind (genOid_dg lim s oid) (\<lambda>(oidStr, parentOid).
       regSym_dg (transOpers name)
         (JObj
           (put_if (dg_genTexts s \<and> description \<noteq> []) ''description'' (JStr description)
           (put_if (genCompliances_dg s compliances \<noteq> []) ''modulecompliance''
              (JList (genCompliances_dg s compliances))
             (oid_record (transOpers name) oidStr ''modulecompliance'')))) s)"

text \<open>
  \<^verbatim>\<open>genNotificationGroup\<close>, \<^verbatim>\<open>genNotificationType\<close> and \<^verbatim>\<open>genObjectGroup\<close> differ
  in the class name only.
\<close>

definition gen_objects_clause ::
  "string \<Rightarrow> nat \<Rightarrow> dgstate \<Rightarrow> string \<Rightarrow> string list \<Rightarrow> string \<Rightarrow> oidel list \<Rightarrow> error + dgstate" where
  "gen_objects_clause cls lim s name objects description oid =
     ebind (genOid_dg lim s oid) (\<lambda>(oidStr, parentOid).
       regSym_dg (transOpers name)
         (JObj
           (put_if (dg_genTexts s \<and> description \<noteq> []) ''description'' (JStr description)
           (put_if (genObjects_dg objects \<noteq> []) ''objects'' (object_refs s (genObjects_dg objects))
             (oid_record (transOpers name) oidStr cls)))) s)"

definition genNotificationGroup_dg ::
  "nat \<Rightarrow> dgstate \<Rightarrow> string \<Rightarrow> string list \<Rightarrow> string \<Rightarrow> oidel list \<Rightarrow> error + dgstate" where
  "genNotificationGroup_dg = gen_objects_clause ''notificationgroup''"

definition genNotificationType_dg ::
  "nat \<Rightarrow> dgstate \<Rightarrow> string \<Rightarrow> string list \<Rightarrow> string \<Rightarrow> oidel list \<Rightarrow> error + dgstate" where
  "genNotificationType_dg = gen_objects_clause ''notificationtype''"

definition genObjectGroup_dg ::
  "nat \<Rightarrow> dgstate \<Rightarrow> string \<Rightarrow> string list \<Rightarrow> string \<Rightarrow> oidel list \<Rightarrow> error + dgstate" where
  "genObjectGroup_dg = gen_objects_clause ''objectgroup''"

definition genObjectIdentity_dg ::
  "nat \<Rightarrow> dgstate \<Rightarrow> string \<Rightarrow> string \<Rightarrow> oidel list \<Rightarrow> error + dgstate" where
  "genObjectIdentity_dg lim s name description oid =
     ebind (genOid_dg lim s oid) (\<lambda>(oidStr, parentOid).
       regSym_dg (transOpers name)
         (JObj (put_if (dg_genTexts s \<and> description \<noteq> []) ''description'' (JStr description)
                  (oid_record (transOpers name) oidStr ''objectidentity''))) s)"

definition genValueDeclaration_dg ::
  "nat \<Rightarrow> dgstate \<Rightarrow> string \<Rightarrow> oidel list \<Rightarrow> error + dgstate" where
  "genValueDeclaration_dg lim s name oid =
     ebind (genOid_dg lim s oid) (\<lambda>(oidStr, parentOid).
       regSym_dg (transOpers name) (JObj (oid_record (transOpers name) oidStr ''objectidentity'')) s)"

text \<open>
  \<^verbatim>\<open>JsonCodeGen.genTrapType\<close>: the record's \<^verbatim>\<open>oid\<close> is
  \<^verbatim>\<open>enterpriseStr + '0.' + str(value)\<close>.
\<close>

definition trap_record :: "dgstate \<Rightarrow> string \<Rightarrow> string \<Rightarrow> string list \<Rightarrow> string \<Rightarrow> int \<Rightarrow> json" where
  "trap_record s name enterpriseStr variables description v =
     JObj
       (put_if (dg_genTexts s \<and> description \<noteq> []) ''description'' (JStr description)
       (put_if (genObjects_dg variables \<noteq> []) ''objects'' (object_refs s (genObjects_dg variables))
         [(''name'', JStr name), (''oid'', JStr (enterpriseStr @ ''0.'' @ show_int v)),
          (''class'', JStr ''notificationtype'')]))"

definition genTrapType_dg ::
  "nat \<Rightarrow> dgstate \<Rightarrow> string \<Rightarrow> oidel list \<Rightarrow> string list \<Rightarrow> string \<Rightarrow> int \<Rightarrow> error + dgstate" where
  "genTrapType_dg lim s name enterprise variables description v =
     ebind (genOid_dg lim s enterprise) (\<lambda>(enterpriseStr, parentOid).
       regSym_dg (transOpers name)
         (trap_record s (transOpers name) enterpriseStr variables description v) s)"

text \<open>
  \<^verbatim>\<open>JsonCodeGen.genObjectType\<close>. The sub-clauses are lowered in the order of the
  tuple: syntax, INDEX, DEFVAL (whose handler, called without \<^verbatim>\<open>objname\<close>, returns
  its data unchanged) and the OID; then the body calls \<open>genDefVal\<close> with the name.
\<close>

definition objecttype_record ::
  "dgstate \<Rightarrow> string \<Rightarrow> string \<Rightarrow> json \<Rightarrow> json \<Rightarrow> string \<Rightarrow> string \<Rightarrow> json list \<Rightarrow> string
     \<Rightarrow> string \<Rightarrow> json" where
  "objecttype_record s name oidStr syn defval units maxaccess indexStr augmention description =
     JObj
       (put_if (dg_genTexts s \<and> description \<noteq> []) ''description'' (JStr description)
       (put_if (augmention \<noteq> []) ''augmention''
          (JObj [(''name'', JStr name), (''module'', JStr (dg_moduleName s)),
                 (''object'', JStr (transOpers augmention))])
       (put_if (indexStr \<noteq> []) ''indices'' (JList indexStr)
       (put_if (maxaccess \<noteq> []) ''maxaccess'' (JStr maxaccess)
       (put_if (units \<noteq> []) ''units'' (JStr units)
       (put_if (truthy defval) ''default'' defval
       (put_if (truthy syn) ''syntax'' syn
         (oid_record name oidStr ''objecttype''))))))))"

definition genObjectType_dg ::
  "nat \<Rightarrow> dgstate \<Rightarrow> string \<Rightarrow> syntax_ast \<Rightarrow> string \<Rightarrow> string \<Rightarrow> string \<Rightarrow> string
     \<Rightarrow> index_ast option \<Rightarrow> defval option \<Rightarrow> oidel list \<Rightarrow> error + dgstate" where
  "genObjectType_dg lim s name syn units maxaccess description augmention index defval oid =
     ebind (genSyntax_dg s syn) (\<lambda>(syntax', s1).
     ebind (case index of
              None \<Rightarrow> Inr ([], s1)
            | Some idx \<Rightarrow> ebind (genTableIndex s1 idx) (\<lambda>((indexStr, fakeStrlist, fakeSyms), s2).
                           Inr (indexStr, s2))) (\<lambda>(indexStr, s2).
     ebind (genOid_dg lim s2 oid) (\<lambda>(oidStr, parentOid).
     ebind (genDefVal lim s2 defval (transOpers name)) (\<lambda>(defval', s3).
       regSym_dg (transOpers name)
         (objecttype_record s3 (transOpers name) oidStr (snd syntax') defval' units maxaccess
            indexStr augmention description) s3))))"

text \<open>
  \<^verbatim>\<open>JsonCodeGen.genTypeDeclarationRHS\<close> and \<^verbatim>\<open>genTypeDeclaration\<close>.
  \<^verbatim>\<open>attrs['type']\<close> raises KeyError on a dict without that key and TypeError on a
  \<^verbatim>\<open>str\<close>. The result \<open>None\<close> is the empty dict returned for empty \<^verbatim>\<open>attrs\<close>,
  which the caller's \<^verbatim>\<open>if declaration\<close> skips.
\<close>

definition get_type :: "json \<Rightarrow> error + json" where
  "get_type attrs =
     (case attrs of
        JObj kvs \<Rightarrow> (case map_of kvs ''type'' of None \<Rightarrow> Inl KeyError | Some t \<Rightarrow> Inr t)
      | _ \<Rightarrow> Inl TypeError)"

definition genTypeDeclarationRHS_dg ::
  "dgstate \<Rightarrow> rhs_ast \<Rightarrow> error + ((string \<times> (string \<times> json) list) option \<times> dgstate)" where
  "genTypeDeclarationRHS_dg s rhs =
     (case rhs of
        PlainSyntax syn \<Rightarrow>
          ebind (genSyntax_dg s syn) (\<lambda>((parentType, attrs), s1).
            if \<not> truthy attrs then Inr (None, s1)
            else ebind (get_type attrs) (\<lambda>t. Inr (Some (parentType, [(''type'', t)]), s1)))
      | TextualConvention display syn \<Rightarrow>
          ebind (genSyntax_dg s syn) (\<lambda>((parentType, attrs), s1).
            ebind (get_type attrs) (\<lambda>t.
              Inr (Some (parentType,
                     put_if (display \<noteq> []) ''displayhint'' (JStr display)
                       [(''type'', t), (''class'', JStr ''textualconvention'')]), s1))))"

definition genTypeDeclaration_dg :: "dgstate \<Rightarrow> string \<Rightarrow> rhs_ast option \<Rightarrow> error + dgstate" where
  "genTypeDeclaration_dg s name rhs =
     (case rhs of
        None \<Rightarrow> Inr s
      | Some r \<Rightarrow>
          ebind (genTypeDeclarationRHS_dg s r) (\<lambda>(declaration, s1).
            case declaration of
              None \<Rightarrow> Inr s1
            | Some (parentType, attrs) \<Rightarrow>
                if parentType = [] then Inr s1
                else regSym_dg (transOpers name)
                       (JObj (od_update [(''name'', JStr name), (''class'', JStr ''type'')] attrs))
                       s1))"

text \<open>The dispatch through \<^verbatim>\<open>handlersTable\<close> on the clause name.\<close>

fun handle_dg :: "nat \<Rightarrow> dgstate \<Rightarrow> decl \<Rightarrow> error + dgstate" where
  "handle_dg lim s (AgentCapabilitiesClause name description oid) =
     genAgentCapabilities_dg lim s name description oid"
| "handle_dg lim s (ModuleIdentityClause name lastUpdated organization contactInfo description
       revisions oid) =
     genModuleIdentity_dg lim s name lastUpdated organization contactInfo description revisions oid"
| "handle_dg lim s (ModuleComplianceClause name description compliances oid) =
     genModuleCompliance_dg lim s name description compliances oid"
| "handle_dg lim s (NotificationGroupClause name objects description oid) =
     genNotificationGroup_dg lim s name objects description oid"
| "handle_dg lim s (NotificationTypeClause name objects description oid) =
     genNotificationType_dg lim s name objects description oid"
| "handle_dg lim s (ObjectGroupClause name objects description oid) =
     genObjectGroup_dg lim s name objects description oid"
| "handle_dg lim s (ObjectIdentityClause name description oid) =
     genObjectIdentity_dg lim s name description oid"
| "handle_dg lim s (ObjectTypeClause name syn units maxaccess description augmention index
       defval oid) =
     genObjectType_dg lim s name syn units maxaccess description augmention index defval oid"
| "handle_dg lim s (TrapTypeClause name enterprise variables description v) =
     genTrapType_dg lim s name enterprise variables description v"
| "handle_dg lim s (TypeDeclaration name rhs) = genTypeDeclaration_dg s name rhs"
| "handle_dg lim s (ValueDeclaration name oid) = genValueDeclaration_dg lim s name oid"

fun handle_all_dg :: "nat \<Rightarrow> dgstate \<Rightarrow> decl list \<Rightarrow> error + dgstate" where
  "handle_all_dg lim s [] = Inr s"
| "handle_all_dg lim s (d # ds) =
     (case handle_dg lim s d of Inl e \<Rightarrow> Inl e | Inr s' \<Rightarrow> handle_all_dg lim s' ds)"

subsection \<open>Imports\<close>

text \<open>
  The first half of \<^verbatim>\<open>genImports\<close> is the same in both generators: the rewriting of
  SMIv1 imports through \<^verbatim>\<open>convertImportv2\<close>, the removal of the rewritten symbols and
  the merge of \<^verbatim>\<open>constImports\<close>. The dict \<^verbatim>\<open>imports\<close> is an association list in
  insertion order with one pair per module.

  The inner loop \<^verbatim>\<open>for symbol in imports[module]\<close> runs over the live list: a
  replacement whose new module is the module at hand appends to the list being iterated,
  and the loop reaches the appended symbol. With a table that maps a symbol to itself
  the loop never ends, so it is a partial function and \<open>None\<close> is "does not return".
\<close>

type_synonym importdict = "(string \<times> string list) list"

definition add_import :: "string \<times> string \<Rightarrow> importdict \<Rightarrow> importdict" where
  "add_import newImport imps =
     (case newImport of
        (newModule, newSymbol) \<Rightarrow>
          (case map_of imps newModule of
             Some syms \<Rightarrow> od_set newModule (syms @ [newSymbol]) imps
           | None \<Rightarrow> imps @ [(newModule, [newSymbol])]))"

partial_function (option) convert_symbols ::
  "(string \<times> (string \<times> string) list) list \<Rightarrow> string \<Rightarrow> nat \<Rightarrow> importdict
     \<Rightarrow> (string \<times> string) list \<Rightarrow> (importdict \<times> (string \<times> string) list) option" where
  "convert_symbols conv module i imps toDel =
     (case map_of imps module of
        None \<Rightarrow> Some (imps, toDel)
      | Some syms \<Rightarrow>
          if length syms \<le> i then Some (imps, toDel)
          else
            (case map_of conv (syms ! i) of
               None \<Rightarrow> convert_symbols conv module (Suc i) imps toDel
             | Some news \<Rightarrow>
                 convert_symbols conv module (Suc i) (fold add_import news imps)
                   (toDel @ [(module, syms ! i)])))"

declare convert_symbols.simps [code]

fun convert_modules ::
  "convtab \<Rightarrow> string list \<Rightarrow> importdict \<Rightarrow> (string \<times> string) list
     \<Rightarrow> (importdict \<times> (string \<times> string) list) option" where
  "convert_modules convtab [] imps toDel = Some (imps, toDel)"
| "convert_modules convtab (module # rest) imps toDel =
     (case map_of convtab module of
        None \<Rightarrow> convert_modules convtab rest imps toDel
      | Some conv \<Rightarrow>
          (case convert_symbols conv module 0 imps toDel of
             None \<Rightarrow> None
           | Some (imps', toDel') \<Rightarrow> convert_modules convtab rest imps' toDel'))"

text \<open>\<^verbatim>\<open>for d in toDel: imports[d[0]].remove(d[1])\<close>.\<close>

definition remove_converted :: "(string \<times> string) list \<Rightarrow> importdict \<Rightarrow> importdict" where
  "remove_converted toDel imps =
     fold (\<lambda>(m, sym) acc.
        case map_of acc m of None \<Rightarrow> acc | Some syms \<Rightarrow> od_set m (remove1 sym syms) acc)
       toDel imps"

definition merge_const :: "importdict \<Rightarrow> importdict \<Rightarrow> importdict" where
  "merge_const consts imps =
     fold (\<lambda>(module, syms) acc.
        case map_of acc module of
          Some l \<Rightarrow> od_set module (l @ syms) acc
        | None \<Rightarrow> acc @ [(module, syms)])
       consts imps"

definition rewrite_imports :: "convtab \<Rightarrow> importdict \<Rightarrow> importdict \<Rightarrow> importdict option" where
  "rewrite_imports convtab consts imps =
     (case convert_modules convtab (map fst imps) imps [] of
        None \<Rightarrow> None
      | Some (imps', toDel) \<Rightarrow> Some (merge_const consts (remove_converted toDel imps')))"

definition constImports_dg :: importdict where
  "constImports_dg =
     [(''SNMPv2-SMI'', [''iso'', ''NOTIFICATION-TYPE'', ''MODULE-IDENTITY'', ''OBJECT-TYPE'',
                        ''OBJECT-IDENTITY'']),
      (''SNMPv2-TC'', [''DisplayString'', ''TEXTUAL-CONVENTION'']),
      (''SNMPv2-CONF'', [''MODULE-COMPLIANCE'', ''NOTIFICATION-GROUP''])]"

text \<open>
  The second half of \<^verbatim>\<open>JsonCodeGen.genImports\<close>: for every module in sorted order
  the distinct symbols go to \<^verbatim>\<open>_seenSyms\<close>, \<^verbatim>\<open>_importMap\<close> and the imports
  record. Python iterates \<^verbatim>\<open>set(imports[module])\<close> in an order it does not specify;
  the record lists the symbols in the order of \<open>remdups\<close>. The record starts with the
  key \<^verbatim>\<open>class\<close>, so a module of that name would meet a \<^verbatim>\<open>str\<close> where the source
  calls \<^verbatim>\<open>extend\<close>.
\<close>

definition import_symbols :: "importdict \<Rightarrow> string \<Rightarrow> string list" where
  "import_symbols imps module = remdups (case map_of imps module of None \<Rightarrow> [] | Some l \<Rightarrow> l)"

fun reg_imports_dg ::
  "string list \<Rightarrow> importdict \<Rightarrow> dgstate \<Rightarrow> (string \<times> json) list
     \<Rightarrow> error + ((string \<times> json) list \<times> dgstate)" where
  "reg_imports_dg [] imps s outDict = Inr (outDict, s)"
| "reg_imports_dg (module # rest) imps s outDict =
     (if import_symbols imps module = [] then reg_imports_dg rest imps s outDict
      else if module = ''class'' then Inl AttributeError
      else reg_imports_dg rest imps
             (s\<lparr>dg_seenSyms := dg_seenSyms s \<union> set (map transOpers (import_symbols imps module)),
                dg_importMap := fold (\<lambda>sym m. m(transOpers sym \<mapsto> module))
                                  (import_symbols imps module) (dg_importMap s)\<rparr>)
             (od_set module (JList (map JStr (import_symbols imps module))) outDict))"

definition genImports_dg ::
  "convtab \<Rightarrow> dgstate \<Rightarrow> importdict
     \<Rightarrow> (error + ((string \<times> json) list \<times> string list \<times> dgstate)) option" where
  "genImports_dg convtab s imps =
     (case rewrite_imports convtab constImports_dg imps of
        None \<Rightarrow> None
      | Some imps' \<Rightarrow>
          Some (ebind (reg_imports_dg (sort (map fst imps')) imps' s [(''class'', JStr ''imports'')])
                  (\<lambda>(outDict, s'). Inr ([(''imports'', JObj outDict)], sort (map fst imps'), s'))))"

subsection \<open>genCode\<close>

text \<open>
  The last loop of \<^verbatim>\<open>JsonCodeGen.genCode\<close>: every name of \<^verbatim>\<open>_symtable_order\<close> is
  looked up in \<^verbatim>\<open>_out\<close> and stored into the document under its own name.
\<close>

fun emit_records ::
  "string list \<Rightarrow> (string \<rightharpoonup> json) \<Rightarrow> (string \<times> json) list \<Rightarrow> error + (string \<times> json) list" where
  "emit_records [] out outDict = Inr outDict"
| "emit_records (symbol # rest) out outDict =
     (case out symbol of
        None \<Rightarrow> Inl (PySmiCodegenError symbol)
      | Some r \<Rightarrow> emit_records rest out (od_set symbol r outDict))"

definition add_meta :: "string list option \<Rightarrow> string \<Rightarrow> (string \<times> json) list \<Rightarrow> (string \<times> json) list" where
  "add_meta comments moduleName outDict =
     (case comments of
        None \<Rightarrow> outDict
      | Some cs \<Rightarrow>
          od_set ''meta'' (JObj [(''comments'', JList (map JStr cs)), (''module'', JStr moduleName)])
            outDict)"

text \<open>
  The state \<^verbatim>\<open>genCode\<close> starts from: everything but \<^verbatim>\<open>fakeidx\<close> is cleared or set
  from the arguments.
\<close>

definition reset_dg :: "dgstate \<Rightarrow> module_ast \<Rightarrow> symtabs \<Rightarrow> bool \<Rightarrow> dgstate" where
  "reset_dg inst ast symbolTable genTexts =
     inst\<lparr>dg_genTexts := genTexts, dg_symbolTable := symbolTable, dg_rows := {}, dg_cols := [],
          dg_seenSyms := {}, dg_importMap := Map.empty, dg_out := Map.empty,
          dg_moduleName := ast_moduleName ast\<rparr>"

text \<open>
  \<^verbatim>\<open>JsonCodeGen.genCode\<close>. The result is the name and imported modules of the MibInfo
  and the document, as the ordered dict that \<^verbatim>\<open>json.dumps\<close> serializes (a JSON text
  keeps the keys in that order), together with the instance state after the call.
  \<open>fakeMibs\<close> (built from \<^verbatim>\<open>AbstractCodeGen.baseMibs\<close>) is a parameter. A falsy
  entry of \<^verbatim>\<open>declarations\<close> is skipped by the source and is not in the list here.
\<close>

definition finish_dg ::
  "string list \<Rightarrow> string list option \<Rightarrow> (string \<times> json) list \<Rightarrow> string list \<Rightarrow> dgstate
     \<Rightarrow> error + ((string \<times> string list \<times> (string \<times> json) list) \<times> dgstate)" where
  "finish_dg fakeMibs comments outDict importedModules s =
     (case dg_symbolTable s (dg_moduleName s) of
        None \<Rightarrow> Inl KeyError
      | Some mt \<Rightarrow>
          ebind (emit_records (st_order mt) (dg_out s) outDict) (\<lambda>doc.
            if serializable (JObj (add_meta comments (dg_moduleName s) doc))
            then Inr ((dg_moduleName s, filter (\<lambda>x. x \<notin> set fakeMibs) importedModules,
                       add_meta comments (dg_moduleName s) doc), s)
            else Inl TypeError))"

definition genCode_dg ::
  "nat \<Rightarrow> convtab \<Rightarrow> string list \<Rightarrow> dgstate \<Rightarrow> module_ast \<Rightarrow> symtabs \<Rightarrow> bool
     \<Rightarrow> string list option
     \<Rightarrow> (error + ((string \<times> string list \<times> (string \<times> json) list) \<times> dgstate)) option" where
  "genCode_dg lim convtab fakeMibs inst ast symbolTable genTexts comments =
     (case genImports_dg convtab (reset_dg inst ast symbolTable genTexts) (ast_imports ast) of
        None \<Rightarrow> None
      | Some r \<Rightarrow>
          Some (ebind r (\<lambda>(outDict, importedModules, s1).
                ebind (handle_all_dg lim s1 (ast_declarations ast)) (\<lambda>s2.
                finish_dg fakeMibs comments outDict importedModules s2))))"

text \<open>A new instance: the attributes \<^verbatim>\<open>__init__\<close> sets, and the class attribute \<^verbatim>\<open>fakeidx\<close>.\<close>

definition new_dg :: dgstate where
  "new_dg = \<lparr>dg_rows = {}, dg_cols = [], dg_seenSyms = {}, dg_importMap = Map.empty,
     dg_out = Map.empty, dg_moduleName = ''DUMMY'', dg_genTexts = True,
     dg_symbolTable = Map.empty, dg_fakeidx = 1000\<rparr>"

section \<open>The symbol table builder (symtable.py, class SymtableCodeGen)\<close>

text \<open>
  The instance state: \<^verbatim>\<open>_rows\<close>, \<^verbatim>\<open>_cols\<close>, \<^verbatim>\<open>_postponedSyms\<close>, \<^verbatim>\<open>_parentOids\<close>,
  \<^verbatim>\<open>_importMap\<close>, \<^verbatim>\<open>_symsOrder\<close>, \<^verbatim>\<open>_out\<close>, \<^verbatim>\<open>moduleName[0]\<close> and
  \<^verbatim>\<open>fakeidx\<close>. \<^verbatim>\<open>_postponedSyms\<close> is a dict that \<^verbatim>\<open>regPostponedSyms\<close> iterates,
  so it is an association list in insertion order (the order Python 3.7 and later
  iterate a dict in). The sets \<^verbatim>\<open>_rows\<close> and \<^verbatim>\<open>_parentOids\<close> are lists without
  repetition; Python does not specify the order in which it iterates a set.
\<close>

record stb =
  stb_rows :: "string list"
  stb_cols :: "(string \<times> string) list"
  stb_postponedSyms :: "(string \<times> (string list \<times> symprops)) list"
  stb_parentOids :: "string list"
  stb_importMap :: "string \<rightharpoonup> string"
  stb_symsOrder :: "string list"
  stb_out :: "string \<rightharpoonup> symprops"
  stb_moduleName :: string
  stb_fakeidx :: nat

text \<open>\<^verbatim>\<open>k in d\<close> for a dict.\<close>

definition has_key :: "('k \<rightharpoonup> 'v) \<Rightarrow> 'k \<Rightarrow> bool" where
  "has_key m k = (m k \<noteq> None)"

definition add_once :: "'a \<Rightarrow> 'a list \<Rightarrow> 'a list" where
  "add_once x xs = (if x \<in> set xs then xs else xs @ [x])"

definition symsTable :: "(string \<times> string list) list" where
  "symsTable =
     [(''MODULE-IDENTITY'', [''ModuleIdentity'']),
      (''OBJECT-TYPE'', [''MibScalar'', ''MibTable'', ''MibTableRow'', ''MibTableColumn'']),
      (''NOTIFICATION-TYPE'', [''NotificationType'']),
      (''TEXTUAL-CONVENTION'', [''TextualConvention'']),
      (''MODULE-COMPLIANCE'', [''ModuleCompliance'']),
      (''OBJECT-GROUP'', [''ObjectGroup'']),
      (''NOTIFICATION-GROUP'', [''NotificationGroup'']),
      (''AGENT-CAPABILITIES'', [''AgentCapabilities'']),
      (''OBJECT-IDENTITY'', [''ObjectIdentity'']),
      (''TRAP-TYPE'', [''NotificationType'']),
      (''BITS'', [''Bits''])]"

definition symTrans :: "string \<Rightarrow> string list" where
  "symTrans symbol = (case map_of symsTable symbol of Some t \<Rightarrow> t | None \<Rightarrow> [symbol])"

definition constImports_stb :: importdict where
  "constImports_stb =
     [(''SNMPv2-SMI'', [''iso'', ''Bits'', ''Integer32'', ''TimeTicks'', ''Counter32'', ''Counter64'',
                        ''NOTIFICATION-TYPE'', ''Gauge32'', ''MODULE-IDENTITY'', ''OBJECT-TYPE'',
                        ''OBJECT-IDENTITY'', ''Unsigned32'', ''IpAddress'', ''MibIdentifier'']),
      (''SNMPv2-TC'', [''DisplayString'', ''TEXTUAL-CONVENTION'']),
      (''SNMPv2-CONF'', [''MODULE-COMPLIANCE'', ''NOTIFICATION-GROUP''])]"

definition typeClasses_stb :: "string \<Rightarrow> string" where
  "typeClasses_stb t =
     (case map_of
        [(''COUNTER32'', ''Counter32''), (''COUNTER64'', ''Counter64''), (''GAUGE32'', ''Gauge32''),
         (''INTEGER'', ''Integer32''), (''INTEGER32'', ''Integer32''),
         (''IPADDRESS'', ''IpAddress''), (''NETWORKADDRESS'', ''IpAddress''),
         (''OBJECT IDENTIFIER'', ''ObjectIdentifier''), (''OCTET STRING'', ''OctetString''),
         (''OPAQUE'', ''Opaque''), (''TIMETICKS'', ''TimeTicks''), (''UNSIGNED32'', ''Unsigned32''),
         (''Counter'', ''Counter32''), (''Gauge'', ''Gauge32''),
         (''NetworkAddress'', ''IpAddress''), (''nullSpecific'', ''zeroDotZero''),
         (''ipRoutingTable'', ''ipRouteTable''),
         (''snmpEnableAuthTraps'', ''snmpEnableAuthenTraps'')] t of
        None \<Rightarrow> t | Some t' \<Rightarrow> t')"

subsection \<open>Imports\<close>

text \<open>
  The second half of \<^verbatim>\<open>SymtableCodeGen.genImports\<close>: every symbol of a module, taken
  through \<^verbatim>\<open>symTrans\<close> and \<^verbatim>\<open>transOpers\<close>, is mapped to that module.
\<close>

fun reg_imports_stb :: "string list \<Rightarrow> importdict \<Rightarrow> stb \<Rightarrow> stb" where
  "reg_imports_stb [] imps s = s"
| "reg_imports_stb (module # rest) imps s =
     reg_imports_stb rest imps
       (s\<lparr>stb_importMap := fold (\<lambda>t m. m(transOpers_stb t \<mapsto> module))
                              (concat (map symTrans (import_symbols imps module)))
                              (stb_importMap s)\<rparr>)"

definition genImports_stb :: "convtab \<Rightarrow> stb \<Rightarrow> importdict \<Rightarrow> (string list \<times> stb) option" where
  "genImports_stb convtab s imps =
     (case rewrite_imports convtab constImports_stb imps of
        None \<Rightarrow> None
      | Some imps' \<Rightarrow>
          Some (sort (map fst imps'), reg_imports_stb (sort (map fst imps')) imps' s))"

subsection \<open>Admission and deferral\<close>

text \<open>\<^verbatim>\<open>SymtableCodeGen.allParentsExists\<close>.\<close>

definition parentExists :: "stb \<Rightarrow> string \<Rightarrow> bool" where
  "parentExists s parent =
     (has_key (stb_out s) parent \<or> has_key (stb_importMap s) parent \<or> parent \<in> set baseTypes \<or>
      parent \<in> {''MibTable'', ''MibTableRow'', ''MibTableColumn''} \<or> parent \<in> set (stb_rows s))"

definition allParentsExists :: "stb \<Rightarrow> string list \<Rightarrow> bool" where
  "allParentsExists s parents = list_all (parentExists s) parents"

text \<open>
  \<^verbatim>\<open>SymtableCodeGen.regPostponedSyms\<close>: one pass over the items of
  \<^verbatim>\<open>_postponedSyms\<close>, admitting each entry whose parents exist at the moment it is
  visited, and then the removal of the admitted names from the dict.
\<close>

fun regPostponed_loop ::
  "(string \<times> (string list \<times> symprops)) list \<Rightarrow> stb \<Rightarrow> string list \<Rightarrow> stb \<times> string list" where
  "regPostponed_loop [] s regedSyms = (s, regedSyms)"
| "regPostponed_loop ((symbol, (parents, symProps)) # rest) s regedSyms =
     (if allParentsExists s parents
      then regPostponed_loop rest
             (s\<lparr>stb_out := (stb_out s)(symbol \<mapsto> symProps),
                stb_symsOrder := stb_symsOrder s @ [symbol]\<rparr>)
             (regedSyms @ [symbol])
      else regPostponed_loop rest s regedSyms)"

definition regPostponedSyms :: "stb \<Rightarrow> stb" where
  "regPostponedSyms s =
     (case regPostponed_loop (stb_postponedSyms s) s [] of
        (s', regedSyms) \<Rightarrow>
          s'\<lparr>stb_postponedSyms :=
               filter (\<lambda>p. fst p \<notin> set regedSyms) (stb_postponedSyms s')\<rparr>)"

text \<open>\<^verbatim>\<open>SymtableCodeGen.regSym\<close>.\<close>

definition regSym_stb :: "string \<Rightarrow> symprops \<Rightarrow> string list \<Rightarrow> stb \<Rightarrow> error + stb" where
  "regSym_stb symbol symProps parents s =
     (if has_key (stb_out s) symbol \<or> symbol \<in> fst ` set (stb_postponedSyms s)
      then Inl (PySmiSemanticError (DuplicateSymbol symbol))
      else if allParentsExists s parents
      then Inr (regPostponedSyms
                  (s\<lparr>stb_out := (stb_out s)(symbol \<mapsto> symProps),
                     stb_symsOrder := stb_symsOrder s @ [symbol]\<rparr>))
      else Inr (s\<lparr>stb_postponedSyms := stb_postponedSyms s @ [(symbol, (parents, symProps))]\<rparr>))"

subsection \<open>Sub-clause handlers\<close>

text \<open>
  \<^verbatim>\<open>SymtableCodeGen.genOid\<close>: every name becomes the pair of its normalized form and
  the module it is imported from (this module otherwise) and is recorded in
  \<^verbatim>\<open>_parentOids\<close>.
\<close>

definition oid_part_stb :: "stb \<Rightarrow> oidel \<Rightarrow> oidpart" where
  "oid_part_stb s el =
     (case el of
        OName n \<Rightarrow>
          OidRef (transOpers_stb n)
            (case stb_importMap s (transOpers_stb n) of None \<Rightarrow> stb_moduleName s | Some m \<Rightarrow> m)
      | ONum k \<Rightarrow> OidNum k
      | OPair n k \<Rightarrow> OidNum k)"

definition genOid_stb :: "stb \<Rightarrow> oidel list \<Rightarrow> oidpart list \<times> stb" where
  "genOid_stb s els =
     (map (oid_part_stb s) els,
      s\<lparr>stb_parentOids :=
           fold (\<lambda>el acc. case el of OName n \<Rightarrow> add_once (transOpers_stb n) acc | _ \<Rightarrow> acc)
             els (stb_parentOids s)\<rparr>)"

text \<open>
  The syntax handlers \<^verbatim>\<open>genSimpleSyntax\<close>, \<^verbatim>\<open>genBits\<close>, \<^verbatim>\<open>genRow\<close>,
  \<^verbatim>\<open>genSequence\<close> and \<^verbatim>\<open>genConceptualTable\<close>. \<open>SynNone\<close> is the pair of empty
  strings that \<^verbatim>\<open>genSequence\<close> returns.
\<close>

datatype stb_syntax = Syn symtype subtype | SynNone

definition genSubtype_stb :: "subtype_ast option \<Rightarrow> subtype" where
  "genSubtype_stb sub =
     (case sub of
        Some (EnumSpec items) \<Rightarrow> if items = [] then SubStr [] else SubList items
      | _ \<Rightarrow> SubStr [])"

definition genSimpleSyntax_stb :: "stb \<Rightarrow> string \<Rightarrow> subtype_ast option \<Rightarrow> stb_syntax" where
  "genSimpleSyntax_stb s objType sub =
     (let objType' = transOpers_stb (typeClasses_stb objType);
          module = (if objType' \<in> set baseTypes then []
                    else case stb_importMap s objType' of
                           None \<Rightarrow> stb_moduleName s | Some m \<Rightarrow> m)
      in Syn (objType', module) (genSubtype_stb sub))"

fun genSyntax_stb :: "stb \<Rightarrow> syntax_ast \<Rightarrow> stb_syntax \<times> stb" where
  "genSyntax_stb s (SimpleSyntax objType sub) = (genSimpleSyntax_stb s objType sub, s)"
| "genSyntax_stb s (BitsSyntax bits) = (Syn (''Bits'', []) (SubList bits), s)"
| "genSyntax_stb s (Row name) =
     (if transOpers_stb name \<in> set (stb_rows s) then (Syn (''MibTableRow'', []) (SubStr []), s)
      else (genSimpleSyntax_stb s name None, s))"
| "genSyntax_stb s (SequenceSyntax cols) =
     (SynNone, s\<lparr>stb_cols := od_update (stb_cols s) cols\<rparr>)"
| "genSyntax_stb s (ConceptualTable r) =
     (case genSyntax_stb s r of
        (Syn (t, m) sub, s1) \<Rightarrow>
          (Syn (''MibTable'', []) (SubStr []),
           if t = [] then s1 else s1\<lparr>stb_rows := add_once (transOpers_stb t) (stb_rows s1)\<rparr>)
      | (SynNone, s1) \<Rightarrow> (Syn (''MibTable'', []) (SubStr []), s1))"

text \<open>
  \<^verbatim>\<open>SymtableCodeGen.genIndex\<close>: every index whose name is one of \<^verbatim>\<open>smiv1IdxTypes\<close>
  takes the current \<^verbatim>\<open>fakeidx\<close> and increments it.
\<close>

fun genIndex_loop ::
  "index_ast \<Rightarrow> nat \<Rightarrow> nat list \<Rightarrow> syntax_ref list \<Rightarrow> nat list \<times> syntax_ref list \<times> nat" where
  "genIndex_loop [] fakeidx fakeIndexes fakeSymsSyntax = (fakeIndexes, fakeSymsSyntax, fakeidx)"
| "genIndex_loop (idx # rest) fakeidx fakeIndexes fakeSymsSyntax =
     (if snd idx \<in> set smiv1IdxTypes
      then genIndex_loop rest (fakeidx + 1) (fakeIndexes @ [fakeidx])
             (fakeSymsSyntax @
                [((''MibTableColumn'', []), SubStr (transOpers_stb (typeClasses_stb (snd idx))))])
      else genIndex_loop rest fakeidx fakeIndexes fakeSymsSyntax)"

definition genIndex_stb ::
  "stb \<Rightarrow> index_ast \<Rightarrow> (string \<times> nat list \<times> syntax_ref list) \<times> stb" where
  "genIndex_stb s indexes =
     (case genIndex_loop indexes (stb_fakeidx s) [] [] of
        (fakeIndexes, fakeSymsSyntax, fakeidx') \<Rightarrow>
          ((''pysmiFakeCol'', fakeIndexes, fakeSymsSyntax), s\<lparr>stb_fakeidx := fakeidx'\<rparr>))"

text \<open>
  \<^verbatim>\<open>SymtableCodeGen.genDefVal\<close> computes a text that only \<^verbatim>\<open>genObjectType\<close> tests
  for emptiness; what remains of it here is where it raises (\<^verbatim>\<open>defval[0]\<close> on an
  empty \<^verbatim>\<open>str\<close>, \<^verbatim>\<open>int(binval, 2)\<close>) and whether its result is empty.
\<close>

definition genDefVal_stb :: "defval \<Rightarrow> error + bool" where
  "genDefVal_stb d =
     (case d of
        DInt i \<Rightarrow> Inr True
      | DStr v \<Rightarrow>
          if v = [] then Inl IndexError
          else if isHex v then Inr True
          else if isBinary v then
            (if payload v = [] then Inr True
             else ebind (py_int 2 (payload v)) (\<lambda>n. Inr True))
          else Inr True
      | DBits bs \<Rightarrow> Inr (bs \<noteq> []))"

subsection \<open>Clause handlers\<close>

definition oid_props :: "string \<Rightarrow> oidpart list \<Rightarrow> string \<Rightarrow> symprops" where
  "oid_props kind oid origName =
     \<lparr>sp_type = kind, sp_oid = Some oid, sp_syntax = None, sp_origName = origName,
      sp_defval = None\<rparr>"

text \<open>
  The handlers of the clauses that carry only a name and an OID:
  \<^verbatim>\<open>genAgentCapabilities\<close>, \<^verbatim>\<open>genModuleIdentity\<close>, \<^verbatim>\<open>genModuleCompliance\<close>,
  \<^verbatim>\<open>genNotificationGroup\<close>, \<^verbatim>\<open>genNotificationType\<close>, \<^verbatim>\<open>genObjectGroup\<close>,
  \<^verbatim>\<open>genObjectIdentity\<close> and \<^verbatim>\<open>genValueDeclaration\<close>.
\<close>

definition gen_oid_clause_stb :: "string \<Rightarrow> stb \<Rightarrow> string \<Rightarrow> oidel list \<Rightarrow> error + stb" where
  "gen_oid_clause_stb kind s origName oidels =
     (case genOid_stb s oidels of
        (oid, s1) \<Rightarrow> regSym_stb (transOpers_stb origName) (oid_props kind oid origName) [] s1)"

text \<open>\<^verbatim>\<open>SymtableCodeGen.genTrapType\<close>: the OID is \<^verbatim>\<open>enterprise + (0, value)\<close>.\<close>

definition genTrapType_stb :: "stb \<Rightarrow> string \<Rightarrow> oidel list \<Rightarrow> int \<Rightarrow> error + stb" where
  "genTrapType_stb s origName enterprise v =
     (case genOid_stb s enterprise of
        (ent, s1) \<Rightarrow>
          regSym_stb (transOpers_stb origName)
            (oid_props ''NotificationType'' (ent @ [OidNum 0, OidNum v]) origName) [] s1)"

text \<open>
  \<^verbatim>\<open>SymtableCodeGen.genObjectType\<close>. The sub-clauses run in the order of the tuple
  (syntax, INDEX, DEFVAL, OID). \<^verbatim>\<open>parents = [syntax[0][0]]\<close> raises IndexError on
  the pair of empty strings. The fake columns are registered, without parents, before
  the object itself.
\<close>

fun reg_fake_syms ::
  "string \<Rightarrow> oidpart list \<Rightarrow> (nat \<times> syntax_ref) list \<Rightarrow> stb \<Rightarrow> error + stb" where
  "reg_fake_syms namepart oid [] s = Inr s"
| "reg_fake_syms namepart oid ((fakeIdx, fakeSyntax) # rest) s =
     (case regSym_stb (namepart @ show_nat fakeIdx)
             \<lparr>sp_type = ''fakeColumn'', sp_oid = Some (oid @ [OidNum (int fakeIdx)]),
              sp_syntax = Some fakeSyntax, sp_origName = namepart @ show_nat fakeIdx,
              sp_defval = None\<rparr> [] s of
        Inl e \<Rightarrow> Inl e
      | Inr s' \<Rightarrow> reg_fake_syms namepart oid rest s')"

definition genObjectType_stb ::
  "stb \<Rightarrow> string \<Rightarrow> syntax_ast \<Rightarrow> string \<Rightarrow> index_ast option \<Rightarrow> defval option \<Rightarrow> oidel list
     \<Rightarrow> error + stb" where
  "genObjectType_stb s origName syn augmention index defval oidels =
     (case genSyntax_stb s syn of
        (syntax', s1) \<Rightarrow>
     (case (case index of
              None \<Rightarrow> (None, s1)
            | Some idx \<Rightarrow> (case genIndex_stb s1 idx of (r, s2) \<Rightarrow> (Some r, s2))) of
        (index', s2) \<Rightarrow>
     ebind (case defval of None \<Rightarrow> Inr False | Some d \<Rightarrow> genDefVal_stb d) (\<lambda>hasDefval.
     (case genOid_stb s2 oidels of
        (oid, s3) \<Rightarrow>
     (case syntax' of
        SynNone \<Rightarrow> Inl IndexError
      | Syn symType symSubtype \<Rightarrow>
          ebind (case index' of
                   None \<Rightarrow> Inr s3
                 | Some (namepart, fakeIndexes, fakeSymSyntax) \<Rightarrow>
                     reg_fake_syms namepart oid (zip fakeIndexes fakeSymSyntax) s3) (\<lambda>s4.
          regSym_stb (transOpers_stb origName)
            \<lparr>sp_type = ''ObjectType'', sp_oid = Some oid,
             sp_syntax = Some (symType, symSubtype), sp_origName = origName,
             sp_defval = (if hasDefval then defval else None)\<rparr>
            (fst symType #
               (if augmention = [] then [] else [transOpers_stb augmention]))
            s4))))))"

text \<open>
  \<^verbatim>\<open>SymtableCodeGen.genTypeDeclaration\<close> over \<^verbatim>\<open>genTypeDeclarationRHS\<close>, which
  returns the syntax pair in both of its shapes.
\<close>

definition genTypeDeclaration_stb :: "stb \<Rightarrow> string \<Rightarrow> rhs_ast option \<Rightarrow> error + stb" where
  "genTypeDeclaration_stb s origName rhs =
     (case rhs of
        None \<Rightarrow> Inr s
      | Some r \<Rightarrow>
          (case genSyntax_stb s (case r of PlainSyntax syn \<Rightarrow> syn
                                          | TextualConvention display syn \<Rightarrow> syn) of
             (SynNone, s1) \<Rightarrow> Inr s1
           | (Syn parentType attrs, s1) \<Rightarrow>
               regSym_stb (transOpers_stb origName)
                 \<lparr>sp_type = ''TypeDeclaration'', sp_oid = None,
                  sp_syntax = Some (parentType, attrs), sp_origName = origName,
                  sp_defval = None\<rparr>
                 [fst parentType] s1))"

fun handle_stb :: "stb \<Rightarrow> decl \<Rightarrow> error + stb" where
  "handle_stb s (AgentCapabilitiesClause name description oid) =
     gen_oid_clause_stb ''AgentCapabilities'' s name oid"
| "handle_stb s (ModuleIdentityClause name lastUpdated organization contactInfo description
       revisions oid) =
     gen_oid_clause_stb ''ModuleIdentity'' s name oid"
| "handle_stb s (ModuleComplianceClause name description compliances oid) =
     gen_oid_clause_stb ''ModuleCompliance'' s name oid"
| "handle_stb s (NotificationGroupClause name objects description oid) =
     gen_oid_clause_stb ''NotificationGroup'' s name oid"
| "handle_stb s (NotificationTypeClause name objects description oid) =
     gen_oid_clause_stb ''NotificationType'' s name oid"
| "handle_stb s (ObjectGroupClause name objects description oid) =
     gen_oid_clause_stb ''ObjectGroup'' s name oid"
| "handle_stb s (ObjectIdentityClause name description oid) =
     gen_oid_clause_stb ''ObjectIdentity'' s name oid"
| "handle_stb s (ObjectTypeClause name syn units maxaccess description augmention index
       defval oid) =
     genObjectType_stb s name syn augmention index defval oid"
| "handle_stb s (TrapTypeClause name enterprise variables description v) =
     genTrapType_stb s name enterprise v"
| "handle_stb s (TypeDeclaration name rhs) = genTypeDeclaration_stb s name rhs"
| "handle_stb s (ValueDeclaration name oid) = gen_oid_clause_stb ''MibIdentifier'' s name oid"

fun handle_all_stb :: "stb \<Rightarrow> decl list \<Rightarrow> error + stb" where
  "handle_all_stb s [] = Inr s"
| "handle_all_stb s (d # ds) =
     (case handle_stb s d of Inl e \<Rightarrow> Inl e | Inr s' \<Rightarrow> handle_all_stb s' ds)"

subsection \<open>genCode\<close>

text \<open>
  The state \<^verbatim>\<open>genCode\<close> starts from: the containers are cleared and the module name
  is set; \<^verbatim>\<open>fakeidx\<close> is left as the instance holds it.
\<close>

definition reset_stb :: "stb \<Rightarrow> module_ast \<Rightarrow> stb" where
  "reset_stb inst ast =
     inst\<lparr>stb_rows := [], stb_cols := [], stb_parentOids := [], stb_symsOrder := [],
          stb_postponedSyms := [], stb_importMap := Map.empty, stb_out := Map.empty,
          stb_moduleName := ast_moduleName ast\<rparr>"

text \<open>The checks after the last declaration, and the symbol table returned.\<close>

definition finish_stb :: "string list \<Rightarrow> stb \<Rightarrow> error + ((string \<times> string list \<times> modsymtab) \<times> stb)" where
  "finish_stb importedModules s =
     (if stb_postponedSyms s \<noteq> []
      then Inl (PySmiSemanticError (UnknownParents (map fst (stb_postponedSyms s))))
      else case filter (\<lambda>p. \<not> (has_key (stb_out s) p \<or> has_key (stb_importMap s) p))
                  (stb_parentOids s) of
             p # ps \<Rightarrow> Inl (PySmiSemanticError (UnknownParentSymbol p))
           | [] \<Rightarrow>
               Inr ((stb_moduleName s, importedModules,
                     \<lparr>st_syms = stb_out s, st_order = stb_symsOrder s,
                      st_cols = map fst (stb_cols s), st_rows = stb_rows s\<rparr>), s))"

text \<open>
  \<^verbatim>\<open>SymtableCodeGen.genCode\<close>: the name and the imported modules of the MibInfo and
  the symbol table, together with the instance state after the call. The
  \<^verbatim>\<open>symbolTable\<close> argument is not read by the builder.
\<close>

definition genCode_stb ::
  "convtab \<Rightarrow> stb \<Rightarrow> module_ast
     \<Rightarrow> (error + ((string \<times> string list \<times> modsymtab) \<times> stb)) option" where
  "genCode_stb convtab inst ast =
     (case genImports_stb convtab (reset_stb inst ast) (ast_imports ast) of
        None \<Rightarrow> None
      | Some (importedModules, s1) \<Rightarrow>
          Some (ebind (handle_all_stb s1 (ast_declarations ast)) (finish_stb importedModules)))"

text \<open>A new instance: the attributes \<^verbatim>\<open>__init__\<close> sets, and the class attribute \<^verbatim>\<open>fakeidx\<close>.\<close>

definition new_stb :: stb where
  "new_stb = \<lparr>stb_rows = [], stb_cols = [], stb_postponedSyms = [], stb_parentOids = [],
     stb_importMap = Map.empty, stb_symsOrder = [], stb_out = Map.empty,
     stb_moduleName = ''DUMMY'', stb_fakeidx = 1000\<rparr>"

section \<open>Reference chains, and the inputs of the closed theorems\<close>

text \<open>
  The syntax chain of a symbol: \<open>syntax_parent\<close> is the \<^verbatim>\<open>(typeName, module)\<close> that
  \<open>getBaseType\<close> recurses on, defined where the entry exists and its type name is
  neither empty nor a base type. \<open>oid_parent\<close> is the first symbolic part of an
  entry's OID (after any leading numbers), the reference \<open>genNumericOid\<close> recurses on
  first. \<open>ancestor f k x\<close> follows a chain \<open>k\<close> steps; a chain is cyclic when a
  positive number of steps leads back to its start.
\<close>

definition syntax_parent :: "symtabs \<Rightarrow> string \<times> string \<Rightarrow> (string \<times> string) option" where
  "syntax_parent st x =
     (case st (snd x) of
        None \<Rightarrow> None
      | Some mt \<Rightarrow>
         (case st_syms mt (fst x) of
            None \<Rightarrow> None
          | Some ent \<Rightarrow>
             (case sp_syntax ent of
                None \<Rightarrow> None
              | Some syn \<Rightarrow>
                  if fst (fst syn) = [] \<or> fst (fst syn) \<in> set baseTypes then None
                  else Some (fst syn))))"

definition is_oid_num :: "oidpart \<Rightarrow> bool" where
  "is_oid_num p = (case p of OidNum k \<Rightarrow> True | OidRef a b \<Rightarrow> False)"

definition oid_parent :: "symtabs \<Rightarrow> string \<times> string \<Rightarrow> (string \<times> string) option" where
  "oid_parent st x =
     (if fst x = ''iso'' then None
      else case st (snd x) of
        None \<Rightarrow> None
      | Some mt \<Rightarrow>
         (case st_syms mt (fst x) of
            None \<Rightarrow> None
          | Some ent \<Rightarrow>
             (case sp_oid ent of
                None \<Rightarrow> None
              | Some poid \<Rightarrow>
                 (case dropWhile is_oid_num poid of
                    OidRef p m # ps \<Rightarrow> Some (p, m)
                  | _ \<Rightarrow> None))))"

fun ancestor :: "('a \<Rightarrow> 'a option) \<Rightarrow> nat \<Rightarrow> 'a \<Rightarrow> 'a option" where
  "ancestor f 0 x = Some x"
| "ancestor f (Suc k) x = (case f x of None \<Rightarrow> None | Some y \<Rightarrow> ancestor f k y)"

text \<open>The \<^verbatim>\<open>syntax\<close> value of an entry of the symbol tables.\<close>

definition entry_syntax :: "symtabs \<Rightarrow> string \<Rightarrow> string \<Rightarrow> syntax_ref option" where
  "entry_syntax st module symName =
     (case st module of
        None \<Rightarrow> None
      | Some mt \<Rightarrow> (case st_syms mt symName of None \<Rightarrow> None | Some ent \<Rightarrow> sp_syntax ent))"

text \<open>
  A symbol table whose entry \<^verbatim>\<open>a\<close> of module \<^verbatim>\<open>M\<close> refers to itself, both as the
  parent of its OID and as its own type.
\<close>

definition cyclic_tabs :: symtabs where
  "cyclic_tabs =
     [''M'' \<mapsto> \<lparr>st_syms = [''a'' \<mapsto> \<lparr>sp_type = ''TypeDeclaration'',
          sp_oid = Some [OidRef ''a'' ''M'', OidNum 1],
          sp_syntax = Some ((''a'', ''M''), SubStr []),
          sp_origName = ''a'', sp_defval = None\<rparr>],
        st_order = [''a''], st_cols = [], st_rows = []\<rparr>]"

text \<open>
  The same table with an object \<^verbatim>\<open>o\<close> whose OID and type refer to \<^verbatim>\<open>a\<close>: \<^verbatim>\<open>o\<close> is
  not on the cycle, its chains lead into it. \<open>lasso_state\<close> is a document generator
  at work on module \<^verbatim>\<open>M\<close> with this table.
\<close>

definition lasso_tabs :: symtabs where
  "lasso_tabs =
     [''M'' \<mapsto> \<lparr>st_syms = [''a'' \<mapsto> \<lparr>sp_type = ''TypeDeclaration'',
          sp_oid = Some [OidRef ''a'' ''M'', OidNum 1],
          sp_syntax = Some ((''a'', ''M''), SubStr []),
          sp_origName = ''a'', sp_defval = None\<rparr>,
        ''o'' \<mapsto> \<lparr>sp_type = ''ObjectType'',
          sp_oid = Some [OidRef ''a'' ''M'', OidNum 2],
          sp_syntax = Some ((''a'', ''M''), SubStr []),
          sp_origName = ''o'', sp_defval = None\<rparr>],
        st_order = [''a'', ''o''], st_cols = [], st_rows = []\<rparr>]"

definition lasso_state :: dgstate where
  "lasso_state = new_dg\<lparr>dg_moduleName := ''M'', dg_symbolTable := lasso_tabs\<rparr>"

text \<open>
  The symbol table of
  \<^verbatim>\<open>Status ::= INTEGER { up(1), down(2) }\<close> and
  \<^verbatim>\<open>s OBJECT-TYPE SYNTAX Status { up(1) } ... DEFVAL { up } ::= { iso 1 }\<close>,
  and the one of \<^verbatim>\<open>Status\<close> with \<^verbatim>\<open>t OBJECT-TYPE SYNTAX Status ...\<close>, whose own
  constraint is empty.
\<close>

definition status_entry :: symprops where
  "status_entry = \<lparr>sp_type = ''TypeDeclaration'', sp_oid = None,
     sp_syntax = Some ((''Integer32'', []), SubList [(''up'', 1), (''down'', 2)]),
     sp_origName = ''Status'', sp_defval = None\<rparr>"

definition status_tabs :: symtabs where
  "status_tabs =
     [''M'' \<mapsto> \<lparr>st_syms = [''Status'' \<mapsto> status_entry,
          ''s'' \<mapsto> \<lparr>sp_type = ''ObjectType'', sp_oid = Some [OidRef ''iso'' ''SNMPv2-SMI'', OidNum 1],
             sp_syntax = Some ((''Status'', ''M''), SubList [(''up'', 1)]),
             sp_origName = ''s'', sp_defval = Some (DStr ''up'')\<rparr>],
        st_order = [''Status'', ''s''], st_cols = [], st_rows = []\<rparr>]"

definition inherit_tabs :: symtabs where
  "inherit_tabs =
     [''M'' \<mapsto> \<lparr>st_syms = [''Status'' \<mapsto> status_entry,
          ''t'' \<mapsto> \<lparr>sp_type = ''ObjectType'', sp_oid = Some [OidRef ''iso'' ''SNMPv2-SMI'', OidNum 2],
             sp_syntax = Some ((''Status'', ''M''), SubStr []),
             sp_origName = ''t'', sp_defval = None\<rparr>],
        st_order = [''Status'', ''t''], st_cols = [], st_rows = []\<rparr>]"
text \<open>
  Running the two generators on a module. \<open>stb_run\<close> is \<^verbatim>\<open>SymtableCodeGen.genCode\<close>
  with an empty rewrite table, reduced to the symbol table it returns and the
  instance it leaves; \<open>stb_symtab\<close> is the symbol table a new builder returns.
  \<open>dg_document\<close> is the document a new document generator returns for the module and
  its symbol table (1000 frames, no texts, no comments), and \<open>dg_record\<close> is a record
  of \<^verbatim>\<open>_out\<close> once the declarations have been handled.
\<close>

definition stb_run :: "stb \<Rightarrow> module_ast \<Rightarrow> (error + modsymtab \<times> stb) option" where
  "stb_run inst ast =
     map_option (map_sum id (\<lambda>r. (snd (snd (fst r)), snd r))) (genCode_stb [] inst ast)"

definition stb_order :: "stb \<Rightarrow> module_ast \<Rightarrow> (error + string list) option" where
  "stb_order inst ast = map_option (map_sum id (\<lambda>r. st_order (fst r))) (stb_run inst ast)"

definition stb_symtab :: "module_ast \<Rightarrow> modsymtab option" where
  "stb_symtab ast =
     (case stb_run new_stb ast of Some (Inr r) \<Rightarrow> Some (fst r) | _ \<Rightarrow> None)"

definition stb_entry :: "module_ast \<Rightarrow> string \<Rightarrow> symprops option" where
  "stb_entry ast name =
     (case stb_symtab ast of None \<Rightarrow> None | Some mt \<Rightarrow> st_syms mt name)"

definition own_tabs :: "module_ast \<Rightarrow> symtabs" where
  "own_tabs ast =
     (case stb_symtab ast of None \<Rightarrow> Map.empty | Some mt \<Rightarrow> [ast_moduleName ast \<mapsto> mt])"

definition dg_document :: "module_ast \<Rightarrow> (error + (string \<times> json) list) option" where
  "dg_document ast =
     map_option (map_sum id (\<lambda>r. snd (snd (fst r))))
       (genCode_dg 1000 [] [] new_dg ast (own_tabs ast) False None)"

definition dg_handled :: "module_ast \<Rightarrow> (error + dgstate) option" where
  "dg_handled ast =
     map_option (\<lambda>r. ebind r (\<lambda>(outDict, importedModules, s1).
        handle_all_dg 1000 s1 (ast_declarations ast)))
       (genImports_dg [] (reset_dg new_dg ast (own_tabs ast) False) (ast_imports ast))"

definition dg_record :: "module_ast \<Rightarrow> string \<Rightarrow> json option" where
  "dg_record ast name =
     (case dg_handled ast of Some (Inr s) \<Rightarrow> dg_out s name | _ \<Rightarrow> None)"

text \<open>
  \<^verbatim>\<open>snmp OBJECT IDENTIFIER ::= { 1 3 6 1 2 1 11 }\<close> and
  \<^verbatim>\<open>coldStart TRAP-TYPE ENTERPRISE snmp ::= 0\<close>.
\<close>

definition trap_ast :: module_ast where
  "trap_ast = \<lparr>ast_moduleName = ''M'', ast_imports = [],
     ast_declarations =
       [ValueDeclaration ''snmp'' [ONum 1, ONum 3, ONum 6, ONum 1, ONum 2, ONum 1, ONum 11],
        TrapTypeClause ''coldStart'' [OName ''snmp''] [] [] 0]\<rparr>"

text \<open>
  A conceptual table whose row is indexed by a bare type:
  \<^verbatim>\<open>fooTable OBJECT-TYPE SYNTAX SEQUENCE OF FooEntry ... ::= { iso 5 }\<close>,
  \<^verbatim>\<open>fooEntry OBJECT-TYPE SYNTAX FooEntry ... INDEX { IpAddress } ::= { fooTable 1 }\<close>.
  The INDEX handlers compare the index name with the upper-case names of
  \<^verbatim>\<open>smiv1IdxTypes\<close>; \<open>index_ast_of\<close> takes the name as the parser passes it.
\<close>

definition index_ast_of :: "string \<Rightarrow> module_ast" where
  "index_ast_of idxName = \<lparr>ast_moduleName = ''M'', ast_imports = [],
     ast_declarations =
       [ObjectTypeClause ''fooTable'' (ConceptualTable (Row ''FooEntry'')) [] ''not-accessible''
          [] [] None None [OName ''iso'', ONum 5],
        ObjectTypeClause ''fooEntry'' (Row ''FooEntry'') [] ''not-accessible''
          [] [] (Some [(0, idxName)]) None [OName ''fooTable'', ONum 1]]\<rparr>"

text \<open>
  Two objects of type OCTET STRING, \<^verbatim>\<open>x\<close> with \<^verbatim>\<open>DEFVAL { "" }\<close> and \<^verbatim>\<open>y\<close> with
  \<^verbatim>\<open>DEFVAL { "a" }\<close>.
\<close>

definition octets_ast :: module_ast where
  "octets_ast = \<lparr>ast_moduleName = ''M'', ast_imports = [],
     ast_declarations =
       [ObjectTypeClause ''x'' (SimpleSyntax ''OCTET STRING'' None) [] ''read-only'' [] [] None
          (Some (DStr [dquote_char, dquote_char])) [OName ''iso'', ONum 1],
        ObjectTypeClause ''y'' (SimpleSyntax ''OCTET STRING'' None) [] ''read-only'' [] [] None
          (Some (DStr [dquote_char, CHR ''a'', dquote_char])) [OName ''iso'', ONum 2]]\<rparr>"

text \<open>
  Type declarations in the order grandchild, child, parent
  (\<^verbatim>\<open>C ::= B\<close>, \<^verbatim>\<open>B ::= A\<close>, \<^verbatim>\<open>A ::= INTEGER\<close>), and in the order child, parent.
\<close>

definition type_decl :: "string \<Rightarrow> string \<Rightarrow> decl" where
  "type_decl name parentType = TypeDeclaration name (Some (PlainSyntax (SimpleSyntax parentType None)))"

definition chain_ast :: module_ast where
  "chain_ast = \<lparr>ast_moduleName = ''M'', ast_imports = [],
     ast_declarations = [type_decl ''C'' ''B'', type_decl ''B'' ''A'', type_decl ''A'' ''INTEGER'']\<rparr>"

definition forward_ast :: module_ast where
  "forward_ast = \<lparr>ast_moduleName = ''M'', ast_imports = [],
     ast_declarations = [type_decl ''child'' ''parent'', type_decl ''parent'' ''INTEGER'']\<rparr>"

text \<open>
  \<^verbatim>\<open>Status ::= INTEGER { up(1), down(2) }\<close> and
  \<^verbatim>\<open>s OBJECT-TYPE SYNTAX Status { up(1) } ... DEFVAL { up } ::= { iso 1 }\<close>.
\<close>

definition status_ast :: module_ast where
  "status_ast = \<lparr>ast_moduleName = ''M'', ast_imports = [],
     ast_declarations =
       [TypeDeclaration ''Status''
          (Some (PlainSyntax (SimpleSyntax ''INTEGER'' (Some (EnumSpec [(''up'', 1), (''down'', 2)]))))),
        ObjectTypeClause ''s'' (SimpleSyntax ''Status'' (Some (EnumSpec [(''up'', 1)])))
          [] ''read-only'' [] [] None (Some (DStr ''up'')) [OName ''iso'', ONum 1]]\<rparr>"

text \<open>A module that declares a value named \<^verbatim>\<open>imports\<close>: \<^verbatim>\<open>imports OBJECT IDENTIFIER ::= { iso 1 }\<close>.\<close>

definition imports_ast :: module_ast where
  "imports_ast = \<lparr>ast_moduleName = ''M'', ast_imports = [],
     ast_declarations = [ValueDeclaration ''imports'' [OName ''iso'', ONum 1]]\<rparr>"

text \<open>
  Two states of the document generator have the same frame when they agree on the module
  name and on the \<^verbatim>\<open>_symtable_order\<close> of every module of the symbol table: the handlers
  change entries of the table, never its order lists.
\<close>

definition same_frame :: "dgstate \<Rightarrow> dgstate \<Rightarrow> bool" where
  "same_frame s s' =
     (dg_moduleName s' = dg_moduleName s \<and>
      (\<lambda>m. map_option st_order (dg_symbolTable s' m)) = (\<lambda>m. map_option st_order (dg_symbolTable s m)))"

text \<open>
  A module that declares \<^verbatim>\<open>a\<close> twice (\<^verbatim>\<open>a OBJECT IDENTIFIER ::= { iso 1 }\<close> and
  \<^verbatim>\<open>a OBJECT IDENTIFIER ::= { iso 2 }\<close>), and the same module with
  \<^verbatim>\<open>IMPORTS a FROM OTHER-MIB\<close>.
\<close>

definition twice_ast :: module_ast where
  "twice_ast = \<lparr>ast_moduleName = ''M'', ast_imports = [],
     ast_declarations = [ValueDeclaration ''a'' [OName ''iso'', ONum 1],
                         ValueDeclaration ''a'' [OName ''iso'', ONum 2]]\<rparr>"

definition shadow_ast :: module_ast where
  "shadow_ast = \<lparr>ast_moduleName = ''M'', ast_imports = [(''OTHER-MIB'', [''a''])],
     ast_declarations = [ValueDeclaration ''a'' [OName ''iso'', ONum 1],
                         ValueDeclaration ''a'' [OName ''iso'', ONum 2]]\<rparr>"

section \<open>Resolution on reference chains\<close>

lemma getBaseType_closed_set:
  assumes closed: "\<And>sn m. (sn, m) \<in> C \<Longrightarrow>
     \<exists>mt ent T M' sub. st m = Some mt \<and> st_syms mt sn = Some ent \<and>
        sp_syntax ent = Some ((T, M'), sub) \<and> T \<noteq> [] \<and> T \<notin> set baseTypes \<and> (T, M') \<in> C"
  shows "(sn, m) \<in> C \<Longrightarrow> getBaseType n st sn m = Inl RecursionError"
proof (induction n arbitrary: sn m)
  case 0
  show ?case by simp
next
  case (Suc n)
  from closed [OF Suc.prems] obtain mt ent T M' sub where
    h: "st m = Some mt" "st_syms mt sn = Some ent" "sp_syntax ent = Some ((T, M'), sub)"
       "T \<noteq> []" "T \<notin> set baseTypes" "(T, M') \<in> C"
    by blast
  from Suc.IH [OF h(6)] have "getBaseType n st T M' = Inl RecursionError" .
  with h show ?case by simp
qed

lemma genNumericOid_numeric_prefix:
  "list_all is_oid_num pre \<Longrightarrow> genNumericOid (Suc d) st xs = Inl e
     \<Longrightarrow> genNumericOid (Suc d) st (pre @ xs) = Inl e"
  by (induction pre) (auto simp: is_oid_num_def split: oidpart.splits)

lemma genNumericOid_closed_set:
  assumes closed: "\<And>p m. (p, m) \<in> C \<Longrightarrow>
     p \<noteq> ''iso'' \<and> (\<exists>mt ent pre p' m' ps. st m = Some mt \<and> st_syms mt p = Some ent \<and>
        sp_oid ent = Some (pre @ OidRef p' m' # ps) \<and> list_all is_oid_num pre \<and> (p', m') \<in> C)"
  shows "(p, m) \<in> C \<Longrightarrow> genNumericOid n st (OidRef p m # rest) = Inl RecursionError"
proof (induction n arbitrary: p m rest)
  case 0
  show ?case by simp
next
  case (Suc n)
  from closed [OF Suc.prems] obtain mt ent pre p' m' ps where
    h: "p \<noteq> ''iso''" "st m = Some mt" "st_syms mt p = Some ent"
       "sp_oid ent = Some (pre @ OidRef p' m' # ps)" "list_all is_oid_num pre" "(p', m') \<in> C"
    by blast
  have inner: "genNumericOid n st (pre @ OidRef p' m' # ps) = Inl RecursionError"
  proof (cases n)
    case 0
    then show ?thesis by simp
  next
    case (Suc k)
    from Suc.IH [OF h(6)] have "genNumericOid n st (OidRef p' m' # ps) = Inl RecursionError" .
    with Suc h(5) show ?thesis
      by (simp add: genNumericOid_numeric_prefix del: genNumericOid.simps)
  qed
  with h show ?case by simp
qed

lemma ancestor_add:
  "ancestor f (j + k) x = (case ancestor f j x of None \<Rightarrow> None | Some y \<Rightarrow> ancestor f k y)"
  by (induction j arbitrary: x) (auto split: option.splits)

lemma ancestor_cycle_mult:
  "ancestor f k x = Some x \<Longrightarrow> ancestor f (m * k) x = Some x"
  by (induction m) (auto simp: ancestor_add)

lemma ancestor_cycle_total:
  assumes "ancestor f k x = Some x" "0 < k"
  shows "ancestor f j x \<noteq> None"
proof
  assume none: "ancestor f j x = None"
  have "j \<le> j * k" using assms(2) by simp
  then obtain d where d: "j * k = j + d" using le_Suc_ex by blast
  have "ancestor f (j * k) x = Some x" using assms(1) by (rule ancestor_cycle_mult)
  with d none show False by (simp add: ancestor_add)
qed

lemma ancestor_lasso_total:
  assumes "ancestor f i x = Some z" "ancestor f k z = Some z" "0 < k"
  shows "ancestor f j x \<noteq> None"
proof
  assume "ancestor f j x = None"
  then have "ancestor f (j + i) x = None" by (simp add: ancestor_add)
  moreover have "ancestor f (i + j) x = ancestor f j z" using assms(1) by (simp add: ancestor_add)
  moreover have "ancestor f j z \<noteq> None" using assms(2,3) by (rule ancestor_cycle_total)
  ultimately show False by (simp add: add.commute)
qed

lemma ancestor_endless_step:
  assumes tot: "\<And>i. ancestor f i x \<noteq> None"
    and y: "ancestor f j x = Some y"
  shows "\<exists>z. f y = Some z \<and> ancestor f (Suc j) x = Some z"
proof -
  have "ancestor f (j + Suc 0) x =
          (case ancestor f j x of None \<Rightarrow> None | Some y \<Rightarrow> ancestor f (Suc 0) y)"
    by (rule ancestor_add)
  then have a: "ancestor f (j + Suc 0) x = (case f y of None \<Rightarrow> None | Some z \<Rightarrow> Some z)"
    by (cases "f y") (simp_all only: y option.case ancestor.simps)
  have "ancestor f (j + Suc 0) x \<noteq> None" by (rule tot)
  with a obtain z where z: "f y = Some z" by (cases "f y") auto
  have "ancestor f (Suc j) x = ancestor f (j + Suc 0) x"
    by (simp only: add_Suc_right add_0_right)
  with a z show ?thesis by simp
qed

lemma getBaseType_endless:
  assumes tot: "\<And>i. ancestor (syntax_parent st) i (sn, m) \<noteq> None"
  shows "getBaseType n st sn m = Inl RecursionError"
proof -
  let ?C = "{y. \<exists>j. ancestor (syntax_parent st) j (sn, m) = Some y}"
  have "(sn, m) \<in> ?C" by (auto intro: exI [of _ 0])
  moreover have "\<exists>mt ent T M' sub. st m' = Some mt \<and> st_syms mt s' = Some ent \<and>
        sp_syntax ent = Some ((T, M'), sub) \<and> T \<noteq> [] \<and> T \<notin> set baseTypes \<and> (T, M') \<in> ?C"
    if "(s', m') \<in> ?C" for s' m'
  proof -
    from that obtain j where "ancestor (syntax_parent st) j (sn, m) = Some (s', m')" by blast
    from ancestor_endless_step [of "syntax_parent st" "(sn, m)", OF tot this] obtain z where
      z: "syntax_parent st (s', m') = Some z" "ancestor (syntax_parent st) (Suc j) (sn, m) = Some z"
      by blast
    from z(2) have "z \<in> ?C" by blast
    with z(1) show ?thesis
      by (cases z) (auto simp: syntax_parent_def split: option.splits if_splits)
  qed
  ultimately show ?thesis by (rule getBaseType_closed_set [rotated])
qed

lemma genNumericOid_endless:
  assumes tot: "\<And>i. ancestor (oid_parent st) i (p, m) \<noteq> None"
  shows "genNumericOid n st (OidRef p m # rest) = Inl RecursionError"
proof -
  let ?C = "{y. \<exists>j. ancestor (oid_parent st) j (p, m) = Some y}"
  have "(p, m) \<in> ?C" by (auto intro: exI [of _ 0])
  moreover have "q \<noteq> ''iso'' \<and> (\<exists>mt ent pre p' m' ps. st qm = Some mt \<and> st_syms mt q = Some ent \<and>
        sp_oid ent = Some (pre @ OidRef p' m' # ps) \<and> list_all is_oid_num pre \<and> (p', m') \<in> ?C)"
    if "(q, qm) \<in> ?C" for q qm
  proof -
    from that obtain j where "ancestor (oid_parent st) j (p, m) = Some (q, qm)" by blast
    from ancestor_endless_step [of "oid_parent st" "(p, m)", OF tot this] obtain z where
      z: "oid_parent st (q, qm) = Some z" "ancestor (oid_parent st) (Suc j) (p, m) = Some z"
      by blast
    from z(2) have zC: "z \<in> ?C" by blast
    from z(1) have q: "q \<noteq> ''iso''" by (auto simp: oid_parent_def split: if_splits)
    from z(1) q obtain mt ent poid ps where
      e: "st qm = Some mt" "st_syms mt q = Some ent" "sp_oid ent = Some poid"
         "dropWhile is_oid_num poid = OidRef (fst z) (snd z) # ps"
      by (auto simp: oid_parent_def split: option.splits list.splits oidpart.splits)
    have "poid = takeWhile is_oid_num poid @ OidRef (fst z) (snd z) # ps"
      using e(4) takeWhile_dropWhile_id [of is_oid_num poid] by simp
    moreover have "list_all is_oid_num (takeWhile is_oid_num poid)"
      using set_takeWhileD [of _ is_oid_num poid] by (auto simp: list_all_iff)
    ultimately show ?thesis using q e zC by (metis prod.collapse)
  qed
  ultimately show ?thesis by (rule genNumericOid_closed_set [rotated])
qed

lemma genNumericOid_endless_prefix:
  assumes tot: "\<And>i. ancestor (oid_parent st) i (p, m) \<noteq> None"
    and pre: "list_all is_oid_num pre"
  shows "genNumericOid n st (pre @ OidRef p m # rest) = Inl RecursionError"
proof (cases n)
  case 0
  then show ?thesis by simp
next
  case (Suc d)
  from genNumericOid_endless [OF tot] have "genNumericOid (Suc d) st (OidRef p m # rest) = Inl RecursionError" .
  with pre Suc show ?thesis by (simp add: genNumericOid_numeric_prefix del: genNumericOid.simps)
qed

lemma defval_oid_endless:
  assumes tot: "\<And>i. ancestor (oid_parent (dg_symbolTable s)) i (v, import_or_self s v) \<noteq> None"
  shows "defval_oid lim s v = Inl (PySmiSemanticError (NoSymbol v (import_or_self s v)))"
proof -
  let ?st = "dg_symbolTable s" and ?m = "import_or_self s v"
  have "ancestor (oid_parent ?st) 0 (v, ?m) = Some (v, ?m)" by simp
  from ancestor_endless_step [of "oid_parent ?st" "(v, ?m)", OF tot this] obtain z where
    z: "oid_parent ?st (v, ?m) = Some z" by blast
  have zt: "ancestor (oid_parent ?st) i z \<noteq> None" for i
    using tot [of "Suc i"] z by simp
  from z have q: "v \<noteq> ''iso''" by (auto simp: oid_parent_def split: if_splits)
  from z q obtain mt ent poid ps where
    e: "?st ?m = Some mt" "st_syms mt v = Some ent" "sp_oid ent = Some poid"
       "dropWhile is_oid_num poid = OidRef (fst z) (snd z) # ps"
    by (auto simp: oid_parent_def split: option.splits list.splits oidpart.splits)
  have p: "poid = takeWhile is_oid_num poid @ OidRef (fst z) (snd z) # ps"
    using e(4) takeWhile_dropWhile_id [of is_oid_num poid] by simp
  have l: "list_all is_oid_num (takeWhile is_oid_num poid)"
    using set_takeWhileD [of _ is_oid_num poid] by (auto simp: list_all_iff)
  have "genNumericOid lim ?st (takeWhile is_oid_num poid @ OidRef (fst z) (snd z) # ps)
          = Inl RecursionError"
    using zt l by (intro genNumericOid_endless_prefix) simp_all
  with p have "genNumericOid lim ?st poid = Inl RecursionError" by simp
  with e show ?thesis by (simp add: defval_oid_def Let_def)
qed

text \<open>
  C5. Resolution over a chain that leads into a cycle. The claim asks for a SemanticError
  on a cyclic OID reference and on a cyclic syntax chain. The source has no check for
  cycles. When the syntax chain of a symbol reaches, after any number of steps, a symbol
  whose own chain leads back to it, \<open>getBaseType\<close> ends with RecursionError whatever
  the number of frames it is given; so does \<open>genNumericOid\<close> on an OID whose first
  reference (after any numbers) has such a chain of OID parents. The one place where the
  document generator answers with a SemanticError is the \<^verbatim>\<open>try\<close> of \<^verbatim>\<open>genDefVal\<close>
  around \<^verbatim>\<open>genNumericOid\<close>, whose bare \<^verbatim>\<open>except\<close> reports the RecursionError as
  "no symbol" for the symbol of the DEFVAL.
\<close>

theorem cyclic_chain_recursion_error:
  "(0 < k \<and> ancestor (syntax_parent st) i (symName, module) = Some z \<and>
    ancestor (syntax_parent st) k z = Some z
      \<longrightarrow> getBaseType n st symName module = Inl RecursionError)
   \<and> (0 < k' \<and> ancestor (oid_parent st) i' (parent, pmodule) = Some z' \<and>
       ancestor (oid_parent st) k' z' = Some z' \<and> list_all is_oid_num pre
      \<longrightarrow> genNumericOid n st (pre @ OidRef parent pmodule # rest) = Inl RecursionError)
   \<and> (0 < k'' \<and>
       ancestor (oid_parent (dg_symbolTable s)) i'' (v, import_or_self s v) = Some z'' \<and>
       ancestor (oid_parent (dg_symbolTable s)) k'' z'' = Some z''
      \<longrightarrow> defval_oid n s v = Inl (PySmiSemanticError (NoSymbol v (import_or_self s v))))"
proof (intro conjI impI)
  assume "0 < k \<and> ancestor (syntax_parent st) i (symName, module) = Some z \<and>
    ancestor (syntax_parent st) k z = Some z"
  then have "ancestor (syntax_parent st) j (symName, module) \<noteq> None" for j
    using ancestor_lasso_total [of "syntax_parent st" i "(symName, module)" z k j] by blast
  then show "getBaseType n st symName module = Inl RecursionError"
    by (rule getBaseType_endless)
next
  assume a: "0 < k' \<and> ancestor (oid_parent st) i' (parent, pmodule) = Some z' \<and>
       ancestor (oid_parent st) k' z' = Some z' \<and> list_all is_oid_num pre"
  then have "ancestor (oid_parent st) j (parent, pmodule) \<noteq> None" for j
    using ancestor_lasso_total [of "oid_parent st" i' "(parent, pmodule)" z' k' j] by blast
  with a show "genNumericOid n st (pre @ OidRef parent pmodule # rest) = Inl RecursionError"
    by (intro genNumericOid_endless_prefix) simp_all
next
  assume "0 < k'' \<and>
       ancestor (oid_parent (dg_symbolTable s)) i'' (v, import_or_self s v) = Some z'' \<and>
       ancestor (oid_parent (dg_symbolTable s)) k'' z'' = Some z''"
  then have "ancestor (oid_parent (dg_symbolTable s)) j (v, import_or_self s v) \<noteq> None" for j
    using ancestor_lasso_total [of "oid_parent (dg_symbolTable s)" i'' "(v, import_or_self s v)"
        z'' k'' j]
    by blast
  then show "defval_oid n s v = Inl (PySmiSemanticError (NoSymbol v (import_or_self s v)))"
    by (rule defval_oid_endless)
qed

theorem cyclic_chain_recursion_error_witness:
  "ancestor (syntax_parent lasso_tabs) 1 (''o'', ''M'') = Some (''a'', ''M'')
   \<and> ancestor (syntax_parent lasso_tabs) 1 (''a'', ''M'') = Some (''a'', ''M'')
   \<and> ancestor (oid_parent lasso_tabs) 1 (''o'', ''M'') = Some (''a'', ''M'')
   \<and> ancestor (oid_parent lasso_tabs) 1 (''a'', ''M'') = Some (''a'', ''M'')
   \<and> (\<forall>n. getBaseType n lasso_tabs ''o'' ''M'' = Inl RecursionError
          \<and> genNumericOid n lasso_tabs [OidNum 1, OidRef ''o'' ''M'', OidNum 7] = Inl RecursionError
          \<and> defval_oid n lasso_state ''o'' = Inl (PySmiSemanticError (NoSymbol ''o'' ''M'')))"
proof -
  have t: "ancestor (syntax_parent lasso_tabs) 1 (''o'', ''M'') = Some (''a'', ''M'')"
    "ancestor (syntax_parent lasso_tabs) 1 (''a'', ''M'') = Some (''a'', ''M'')"
    by (simp_all add: syntax_parent_def lasso_tabs_def baseTypes_def)
  have o: "ancestor (oid_parent lasso_tabs) 1 (''o'', ''M'') = Some (''a'', ''M'')"
    "ancestor (oid_parent lasso_tabs) 1 (''a'', ''M'') = Some (''a'', ''M'')"
    by (simp_all add: oid_parent_def lasso_tabs_def is_oid_num_def)
  have s: "dg_symbolTable lasso_state = lasso_tabs" "import_or_self lasso_state ''o'' = ''M''"
    by (simp_all add: lasso_state_def new_dg_def import_or_self_def)
  have p: "list_all is_oid_num [OidNum 1]" by (simp add: is_oid_num_def)
  show ?thesis
    using t o s p
      cyclic_chain_recursion_error [of 1 lasso_tabs 1 "''o''" "''M''" "(''a'', ''M'')" _
        1 1 "''o''" "''M''" "(''a'', ''M'')" "[OidNum 1]" "[OidNum 7]"
        1 lasso_state 1 "''o''" "(''a'', ''M'')"]
    by simp
qed

text \<open>
  On the table whose entry \<^verbatim>\<open>a\<close> refers to itself both resolutions end with
  RecursionError, not with a SemanticError.
\<close>

theorem cyclic_chain_no_semantic_error:
  "map_sum id fst (getBaseType 1000 cyclic_tabs ''a'' ''M'') = Inl RecursionError
   \<and> genNumericOid 1000 cyclic_tabs [OidRef ''a'' ''M'', OidNum 7] = Inl RecursionError"
  by code_simp

section \<open>Base-type resolution\<close>

lemma getBaseType_result_base:
  "getBaseType n st sn m = Inr (r, st') \<Longrightarrow> fst (fst r) \<in> set baseTypes"
proof (induction n arbitrary: sn m r st')
  case 0
  then show ?case by simp
next
  case (Suc n)
  then show ?case
    by (auto split: option.splits if_splits sum.splits prod.splits subtype.splits)
qed

lemma getBaseType_base:
  assumes "st m = Some mt" "st_syms mt sn = Some ent" "sp_syntax ent = Some ((T, M'), sub)"
    "T \<noteq> []" "T \<in> set baseTypes"
  shows "getBaseType (Suc n) st sn m = Inr (((T, M'), sub), st)"
  using assms by simp

lemma getBaseType_step:
  assumes "st m = Some mt" "st_syms mt sn = Some ent" "sp_syntax ent = Some ((T, M'), sub)"
    "T \<noteq> []" "T \<notin> set baseTypes" "getBaseType n st T M' = Inr ((bt, bsub), st1)"
  shows "map_sum id fst (getBaseType (Suc n) st sn m) =
           Inr (bt, case bsub of
                      SubList bl \<Rightarrow> (case sub of SubList sl \<Rightarrow> SubList (sl @ bl)
                                                 | SubStr s \<Rightarrow> SubList bl)
                    | SubStr b \<Rightarrow> sub)"
  using assms by (simp split: subtype.splits)

lemma getBaseType_chain:
  "ancestor (syntax_parent st) k (sn, m) = Some (b, bm) \<Longrightarrow> st bm = Some mt \<Longrightarrow>
   st_syms mt b = Some ent \<Longrightarrow> sp_syntax ent = Some (B, bsub) \<Longrightarrow> fst B \<in> set baseTypes \<Longrightarrow>
   fst B \<noteq> [] \<Longrightarrow> \<exists>c st'. getBaseType (Suc (k + j)) st sn m = Inr ((B, c), st')"
proof (induction k arbitrary: sn m)
  case 0
  then show ?case by (cases B) simp
next
  case (Suc k)
  from Suc.prems(1) obtain y where
    y: "syntax_parent st (sn, m) = Some y" "ancestor (syntax_parent st) k y = Some (b, bm)"
    by (auto split: option.splits)
  from Suc.IH [of "fst y" "snd y"] y(2) Suc.prems obtain c st' where
    r: "getBaseType (Suc (k + j)) st (fst y) (snd y) = Inr ((B, c), st')"
    by auto
  from y(1) obtain mt' ent' sub where
    e: "st m = Some mt'" "st_syms mt' sn = Some ent'" "sp_syntax ent' = Some (y, sub)"
       "fst y \<noteq> []" "fst y \<notin> set baseTypes"
    by (auto simp: syntax_parent_def split: option.splits if_splits)
  show ?case
    using e r
    by (cases y)
      (auto simp del: getBaseType.simps simp add: getBaseType.simps(2) [of "Suc (k + j)"]
         split: subtype.splits)
qed

text \<open>
  C6. What \<open>getBaseType\<close> returns. For an entry whose syntax is \<open>((T, M'), sub)\<close>: when
  \<open>T\<close> is a base type the result is that syntax; otherwise the result has the type
  that the resolution of \<open>(T, M')\<close> returns, and its constraint is the entry's own list
  followed by the resolved list when both are lists, the resolved list when only that one
  is a list, and the entry's own constraint when the resolved one is not a list. Every
  result carries a base type, and when the syntax chain of the symbol reaches, after
  \<open>k\<close> steps, an entry whose type \<open>B\<close> is a base type, \<open>k + 1\<close> frames or more give a
  result of type \<open>B\<close>. (The claim lets the entry's own constraint win whenever the two are
  not both lists.)
\<close>

theorem getBaseType_first_base_merged:
  "(st module = Some mt \<and> st_syms mt symName = Some ent \<and>
      sp_syntax ent = Some ((T, M'), sub) \<and> T \<noteq> [] \<longrightarrow>
        (T \<in> set baseTypes \<longrightarrow>
           map_sum id fst (getBaseType (Suc n) st symName module) = Inr ((T, M'), sub)) \<and>
        (T \<notin> set baseTypes \<and> getBaseType n st T M' = Inr ((bt, bsub), st1) \<longrightarrow>
           map_sum id fst (getBaseType (Suc n) st symName module) =
             Inr (bt, case bsub of
                        SubList bl \<Rightarrow> (case sub of SubList sl \<Rightarrow> SubList (sl @ bl)
                                                   | SubStr s \<Rightarrow> SubList bl)
                      | SubStr b \<Rightarrow> sub)))
   \<and> (getBaseType i st symName module = Inr (r, st2) \<longrightarrow> fst (fst r) \<in> set baseTypes)
   \<and> (ancestor (syntax_parent st) k (symName, module) = Some (base, bmodule) \<and>
        entry_syntax st bmodule base = Some (B, bsub') \<and> fst B \<in> set baseTypes \<and> fst B \<noteq> []
        \<longrightarrow> (\<exists>c st'. getBaseType (Suc (k + j)) st symName module = Inr ((B, c), st')))"
proof (intro conjI impI)
  assume "st module = Some mt \<and> st_syms mt symName = Some ent \<and>
      sp_syntax ent = Some ((T, M'), sub) \<and> T \<noteq> []" and "T \<in> set baseTypes"
  then show "map_sum id fst (getBaseType (Suc n) st symName module) = Inr ((T, M'), sub)"
    by (simp add: getBaseType_base del: getBaseType.simps)
next
  assume "st module = Some mt \<and> st_syms mt symName = Some ent \<and>
      sp_syntax ent = Some ((T, M'), sub) \<and> T \<noteq> []"
    and "T \<notin> set baseTypes \<and> getBaseType n st T M' = Inr ((bt, bsub), st1)"
  then show "map_sum id fst (getBaseType (Suc n) st symName module) =
             Inr (bt, case bsub of
                        SubList bl \<Rightarrow> (case sub of SubList sl \<Rightarrow> SubList (sl @ bl)
                                                   | SubStr s \<Rightarrow> SubList bl)
                      | SubStr b \<Rightarrow> sub)"
    using getBaseType_step by blast
next
  assume "getBaseType i st symName module = Inr (r, st2)"
  then show "fst (fst r) \<in> set baseTypes" by (rule getBaseType_result_base)
next
  assume a: "ancestor (syntax_parent st) k (symName, module) = Some (base, bmodule) \<and>
        entry_syntax st bmodule base = Some (B, bsub') \<and> fst B \<in> set baseTypes \<and> fst B \<noteq> []"
  then obtain mt' ent' where "st bmodule = Some mt'" "st_syms mt' base = Some ent'"
      "sp_syntax ent' = Some (B, bsub')"
    by (auto simp: entry_syntax_def split: option.splits)
  with a show "\<exists>c st'. getBaseType (Suc (k + j)) st symName module = Inr ((B, c), st')"
    using getBaseType_chain by blast
qed

theorem getBaseType_first_base_merged_witness:
  "map_sum id fst (getBaseType 1 status_tabs ''Status'' ''M'') =
      Inr ((''Integer32'', []), SubList [(''up'', 1), (''down'', 2)])
   \<and> map_sum id fst (getBaseType 2 status_tabs ''s'' ''M'') =
      Inr ((''Integer32'', []), SubList [(''up'', 1), (''up'', 1), (''down'', 2)])
   \<and> map_sum id fst (getBaseType 2 inherit_tabs ''t'' ''M'') =
      Inr ((''Integer32'', []), SubList [(''up'', 1), (''down'', 2)])
   \<and> ancestor (syntax_parent status_tabs) 1 (''s'', ''M'') = Some (''Status'', ''M'')
   \<and> (\<forall>j. \<exists>c st'. getBaseType (Suc (1 + j)) status_tabs ''s'' ''M'' = Inr (((''Integer32'', []), c), st'))"
proof -
  have e0: "status_tabs ''M'' = Some (the (status_tabs ''M'')) \<and>
      st_syms (the (status_tabs ''M'')) ''Status'' = Some status_entry \<and>
      sp_syntax status_entry = Some ((''Integer32'', []), SubList [(''up'', 1), (''down'', 2)]) \<and>
      ''Integer32'' \<noteq> []"
    by (simp add: status_tabs_def status_entry_def)
  have b: "''Integer32'' \<in> set baseTypes" by (simp add: baseTypes_def)
  have nb: "''Status'' \<notin> set baseTypes" by (simp add: baseTypes_def)
  have r1: "getBaseType 1 status_tabs ''Status'' ''M'' =
      Inr (((''Integer32'', []), SubList [(''up'', 1), (''down'', 2)]), status_tabs)"
    by (simp add: status_tabs_def status_entry_def baseTypes_def)
  have r1': "getBaseType 1 inherit_tabs ''Status'' ''M'' =
      Inr (((''Integer32'', []), SubList [(''up'', 1), (''down'', 2)]), inherit_tabs)"
    by (simp add: inherit_tabs_def status_entry_def baseTypes_def)
  have e1: "status_tabs ''M'' = Some (the (status_tabs ''M'')) \<and>
      st_syms (the (status_tabs ''M'')) ''s'' =
        Some (the (st_syms (the (status_tabs ''M'')) ''s'')) \<and>
      sp_syntax (the (st_syms (the (status_tabs ''M'')) ''s'')) =
        Some ((''Status'', ''M''), SubList [(''up'', 1)]) \<and> ''Status'' \<noteq> []"
    by (simp add: status_tabs_def)
  have e2: "inherit_tabs ''M'' = Some (the (inherit_tabs ''M'')) \<and>
      st_syms (the (inherit_tabs ''M'')) ''t'' =
        Some (the (st_syms (the (inherit_tabs ''M'')) ''t'')) \<and>
      sp_syntax (the (st_syms (the (inherit_tabs ''M'')) ''t'')) =
        Some ((''Status'', ''M''), SubStr []) \<and> ''Status'' \<noteq> []"
    by (simp add: inherit_tabs_def)
  have c: "ancestor (syntax_parent status_tabs) 1 (''s'', ''M'') = Some (''Status'', ''M'')"
    by (simp add: syntax_parent_def status_tabs_def baseTypes_def)
  have es: "entry_syntax status_tabs ''M'' ''Status'' =
      Some ((''Integer32'', []), SubList [(''up'', 1), (''down'', 2)])"
    by (simp add: entry_syntax_def status_tabs_def status_entry_def)
  note t0 = getBaseType_first_base_merged
    [where st = status_tabs and module = "''M''" and symName = "''Status''"
       and mt = "the (status_tabs ''M'')" and ent = status_entry and T = "''Integer32''"
       and M' = "[]" and sub = "SubList [(''up'', 1), (''down'', 2)]" and n = 0]
  note t1 = getBaseType_first_base_merged
    [where st = status_tabs and module = "''M''" and symName = "''s''"
       and mt = "the (status_tabs ''M'')" and ent = "the (st_syms (the (status_tabs ''M'')) ''s'')"
       and T = "''Status''" and M' = "''M''" and sub = "SubList [(''up'', 1)]" and n = 1
       and bt = "(''Integer32'', [])" and bsub = "SubList [(''up'', 1), (''down'', 2)]"
       and ?st1.0 = status_tabs and k = 1 and base = "''Status''" and bmodule = "''M''"
       and B = "(''Integer32'', [])" and bsub' = "SubList [(''up'', 1), (''down'', 2)]"]
  note t2 = getBaseType_first_base_merged
    [where st = inherit_tabs and module = "''M''" and symName = "''t''"
       and mt = "the (inherit_tabs ''M'')" and ent = "the (st_syms (the (inherit_tabs ''M'')) ''t'')"
       and T = "''Status''" and M' = "''M''" and sub = "SubStr []" and n = 1
       and bt = "(''Integer32'', [])" and bsub = "SubList [(''up'', 1), (''down'', 2)]"
       and ?st1.0 = inherit_tabs]
  have g0: "map_sum id fst (getBaseType 1 status_tabs ''Status'' ''M'') =
      Inr ((''Integer32'', []), SubList [(''up'', 1), (''down'', 2)])"
    using t0 e0 b by (simp del: getBaseType.simps)
  have g1: "map_sum id fst (getBaseType 2 status_tabs ''s'' ''M'') =
      Inr ((''Integer32'', []), SubList [(''up'', 1), (''up'', 1), (''down'', 2)])"
    using t1 e1 nb r1 by (simp del: getBaseType.simps add: numeral_2_eq_2)
  have g2: "map_sum id fst (getBaseType 2 inherit_tabs ''t'' ''M'') =
      Inr ((''Integer32'', []), SubList [(''up'', 1), (''down'', 2)])"
    using t2 e2 nb r1' by (simp del: getBaseType.simps add: numeral_2_eq_2)
  have g3: "\<forall>j. \<exists>c st'. getBaseType (Suc (1 + j)) status_tabs ''s'' ''M'' =
      Inr (((''Integer32'', []), c), st')"
    using t1 c es b by (simp del: getBaseType.simps)
  from g0 g1 g2 c g3 show ?thesis by blast
qed

theorem getBaseType_parent_list_wins:
  "entry_syntax inherit_tabs ''M'' ''t'' = Some ((''Status'', ''M''), SubStr [])
   \<and> entry_syntax inherit_tabs ''M'' ''Status'' =
       Some ((''Integer32'', []), SubList [(''up'', 1), (''down'', 2)])
   \<and> map_sum id fst (getBaseType 1000 inherit_tabs ''t'' ''M'') =
       Inr ((''Integer32'', []), SubList [(''up'', 1), (''down'', 2)])"
  by code_simp

text \<open>
  C7. The symbol table after a run of the document generator. For the module of
  \<open>status_ast\<close> and the symbol table the builder returns for it, the \<^verbatim>\<open>syntax\<close> of the
  entry \<^verbatim>\<open>s\<close> holds the list \<^verbatim>\<open>[up]\<close> before the declarations are handled and the list
  \<^verbatim>\<open>[up, up, down]\<close> after: \<open>getBaseType\<close>, called for the DEFVAL of \<^verbatim>\<open>s\<close>, extends the
  entry's list in place.
\<close>

theorem getBaseType_extends_entry_list:
  "entry_syntax (own_tabs status_ast) ''M'' ''s'' = Some ((''Status'', ''M''), SubList [(''up'', 1)])
   \<and> (case dg_handled status_ast of
         Some (Inr s) \<Rightarrow> entry_syntax (dg_symbolTable s) ''M'' ''s''
       | _ \<Rightarrow> None) =
       Some ((''Status'', ''M''), SubList [(''up'', 1), (''up'', 1), (''down'', 2)])
   \<and> map_sum id (\<lambda>r. entry_syntax (snd r) ''M'' ''s'') (getBaseType 1000 status_tabs ''s'' ''M'') =
       Inr (Some ((''Status'', ''M''), SubList [(''up'', 1), (''up'', 1), (''down'', 2)]))"
  by code_simp

section \<open>The generators on concrete modules\<close>

text \<open>
  C1. The fake column of an INDEX over a bare type. For the row
  \<^verbatim>\<open>fooEntry ... INDEX { IPADDRESS } ::= { fooTable 1 }\<close> the builder registers
  \<^verbatim>\<open>pysmiFakeCol1000\<close> of kind \<^verbatim>\<open>fakeColumn\<close> with the row's OID extended by 1000.
  The document generator's record of \<^verbatim>\<open>fooEntry\<close> has the index
  \<^verbatim>\<open>{module: M, object: <the builtin object>}\<close>, not
  \<^verbatim>\<open>{module: M, object: pysmiFakeCol1000}\<close>, and \<^verbatim>\<open>genCode\<close> raises CodegenError for
  \<^verbatim>\<open>pysmiFakeCol1000\<close>, which has no record. With the index name spelled \<^verbatim>\<open>IpAddress\<close>
  no fake column is made and the index is the type name itself.
\<close>

theorem fake_index_not_in_document:
  "map_option (\<lambda>e. (sp_type e, sp_oid e, sp_syntax e))
       (stb_entry (index_ast_of ''IPADDRESS'') ''pysmiFakeCol1000'') =
     Some (''fakeColumn'', Some [OidRef ''fooTable'' ''M'', OidNum 1, OidNum 1000],
           Some ((''MibTableColumn'', []), SubStr ''IpAddress''))
   \<and> map_option sp_oid (stb_entry (index_ast_of ''IPADDRESS'') ''fooEntry'') =
     Some (Some [OidRef ''fooTable'' ''M'', OidNum 1])
   \<and> dg_record (index_ast_of ''IPADDRESS'') ''fooEntry'' =
     Some (JObj [(''name'', JStr ''fooEntry''), (''oid'', JStr ''1.5.1''),
                 (''class'', JStr ''objecttype''), (''maxaccess'', JStr ''not-accessible''),
                 (''indices'',
                  JList [JObj [(''module'', JStr ''M''), (''object'', JBuiltinObject)]])])
   \<and> dg_document (index_ast_of ''IPADDRESS'') = Some (Inl (PySmiCodegenError ''pysmiFakeCol1000''))
   \<and> stb_order new_stb (index_ast_of ''IpAddress'') = Some (Inr [''fooTable'', ''fooEntry''])
   \<and> dg_record (index_ast_of ''IpAddress'') ''fooEntry'' =
     Some (JObj [(''name'', JStr ''fooEntry''), (''oid'', JStr ''1.5.1''),
                 (''class'', JStr ''objecttype''), (''maxaccess'', JStr ''not-accessible''),
                 (''indices'',
                  JList [JObj [(''module'', JStr ''M''), (''object'', JStr ''IpAddress'')]])])"
  by code_simp

text \<open>
  C2. The OID of a TRAP-TYPE record. For \<^verbatim>\<open>coldStart TRAP-TYPE ENTERPRISE snmp ::= 0\<close>
  with \<^verbatim>\<open>snmp\<close> at 1.3.6.1.2.1.11 the document's record has the OID string
  \<^verbatim>\<open>1.3.6.1.2.1.110.0\<close>: the source appends \<^verbatim>\<open>'0.'\<close>, not \<^verbatim>\<open>'.0.'\<close>. The builder's entry
  for the same trap has the OID \<^verbatim>\<open>snmp + (0, 0)\<close>, which resolves to 1.3.6.1.2.1.11.0.0.
\<close>

theorem trap_oid_missing_dot:
  "dg_document trap_ast =
     Some (Inr [(''imports'', JObj [(''class'', JStr ''imports''),
        (''SNMPv2-CONF'', JList [JStr ''MODULE-COMPLIANCE'', JStr ''NOTIFICATION-GROUP'']),
        (''SNMPv2-SMI'', JList [JStr ''iso'', JStr ''NOTIFICATION-TYPE'', JStr ''MODULE-IDENTITY'',
            JStr ''OBJECT-TYPE'', JStr ''OBJECT-IDENTITY'']),
        (''SNMPv2-TC'', JList [JStr ''DisplayString'', JStr ''TEXTUAL-CONVENTION''])]),
       (''snmp'', JObj [(''name'', JStr ''snmp''), (''oid'', JStr ''1.3.6.1.2.1.11''),
           (''class'', JStr ''objectidentity'')]),
       (''coldStart'', JObj [(''name'', JStr ''coldStart''), (''oid'', JStr ''1.3.6.1.2.1.110.0''),
           (''class'', JStr ''notificationtype'')])])
   \<and> map_option sp_oid (stb_entry trap_ast ''coldStart'') =
       Some (Some [OidRef ''snmp'' ''M'', OidNum 0, OidNum 0])
   \<and> map_sum id (\<lambda>r. join ''.'' (map show_int r))
        (genNumericOid 1000 (own_tabs trap_ast) [OidRef ''snmp'' ''M'', OidNum 0, OidNum 0]) =
       Inr ''1.3.6.1.2.1.11.0.0''"
  by code_simp

text \<open>
  C3. The default of an empty quoted string. The object \<^verbatim>\<open>x\<close> of \<open>octets_ast\<close> has the
  base type OctetString and \<^verbatim>\<open>DEFVAL { "" }\<close>; \<open>genDefVal\<close> returns the empty dict for it
  and the record of \<^verbatim>\<open>x\<close> has no \<^verbatim>\<open>default\<close>, where the claim asks for
  \<^verbatim>\<open>{value: "", format: 'string'}\<close>. The non-empty string of \<^verbatim>\<open>y\<close> is lowered.
\<close>

theorem empty_string_default_dropped:
  "map_sum id fst (getBaseType 1000 (own_tabs octets_ast) ''x'' ''M'') =
     Inr ((''OctetString'', []), SubStr [])
   \<and> map_sum id fst
        (genDefVal 1000 (reset_dg new_dg octets_ast (own_tabs octets_ast) False)
           (Some (DStr [dquote_char, dquote_char])) ''x'') = Inr (JObj [])
   \<and> dg_record octets_ast ''x'' =
     Some (JObj [(''name'', JStr ''x''), (''oid'', JStr ''1.1''), (''class'', JStr ''objecttype''),
                 (''syntax'', JObj [(''type'', JStr ''OCTET STRING''), (''class'', JStr ''type'')]),
                 (''maxaccess'', JStr ''read-only'')])
   \<and> map_sum id fst
        (genDefVal 1000 (reset_dg new_dg octets_ast (own_tabs octets_ast) False)
           (Some (DStr [dquote_char, CHR ''a'', dquote_char])) ''y'') =
     Inr (JObj [(''default'', JObj [(''value'', JStr ''a''), (''format'', JStr ''string'')])])"
  by code_simp

text \<open>
  C4. Waking postponed symbols. With the declarations \<^verbatim>\<open>C ::= B\<close>, \<^verbatim>\<open>B ::= A\<close>,
  \<^verbatim>\<open>A ::= INTEGER\<close> in this order, the admission of \<^verbatim>\<open>A\<close> visits \<^verbatim>\<open>C\<close> (whose parent
  \<^verbatim>\<open>B\<close> is still postponed) and then admits \<^verbatim>\<open>B\<close>; nothing visits \<^verbatim>\<open>C\<close> again, and
  the pass ends with the SemanticError for unknown parents of \<^verbatim>\<open>C\<close> although every
  forward reference is resolvable. The two-declaration case gives \<^verbatim>\<open>[parent, child]\<close>.
\<close>

theorem postponed_chain_left_behind:
  "stb_order new_stb chain_ast = Some (Inl (PySmiSemanticError (UnknownParents [''C''])))
   \<and> stb_order new_stb forward_ast = Some (Inr [''parent'', ''child''])"
  by code_simp

text \<open>
  C8. Fake-column numbering over two runs of one instance. \<^verbatim>\<open>genCode\<close> does not reset
  \<^verbatim>\<open>fakeidx\<close>: the first run of a new builder on \<open>index_ast_of ''IPADDRESS''\<close> names the
  fake column \<^verbatim>\<open>pysmiFakeCol1000\<close>, and the second run of the same instance on the same
  module names it \<^verbatim>\<open>pysmiFakeCol1001\<close>.
\<close>

theorem fakeidx_not_reset:
  "stb_order new_stb (index_ast_of ''IPADDRESS'') =
     Some (Inr [''fooTable'', ''pysmiFakeCol1000'', ''fooEntry''])
   \<and> (case stb_run new_stb (index_ast_of ''IPADDRESS'') of
         Some (Inr r) \<Rightarrow> stb_order (snd r) (index_ast_of ''IPADDRESS'')
       | _ \<Rightarrow> None) =
     Some (Inr [''fooTable'', ''pysmiFakeCol1001'', ''fooEntry''])"
  by code_simp

section \<open>The document of the document generator\<close>

lemma same_frame_refl [simp]: "same_frame s s"
  by (simp add: same_frame_def)

lemma same_frame_trans: "same_frame s s1 \<Longrightarrow> same_frame s1 s2 \<Longrightarrow> same_frame s s2"
  by (simp add: same_frame_def)

lemma set_syntax_order:
  "map_option st_order (set_syntax st m sn syn k) = map_option st_order (st k)"
  by (auto simp: set_syntax_def split: option.splits)

lemma getBaseType_order:
  "getBaseType n st sn m = Inr (r, st') \<Longrightarrow> map_option st_order (st' k) = map_option st_order (st k)"
proof (induction n arbitrary: sn m r st')
  case 0
  then show ?case by simp
next
  case (Suc n)
  then show ?case
    by (auto simp: set_syntax_order split: option.splits if_splits sum.splits prod.splits subtype.splits)
qed

lemma regSym_dg_frame: "regSym_dg n r s = Inr s' \<Longrightarrow> same_frame s s'"
  by (auto simp: regSym_dg_def same_frame_def split: if_splits)

lemma ebind_Inr: "ebind x f = Inr y \<Longrightarrow> \<exists>a. x = Inr a \<and> f a = Inr y"
  by (cases x) auto

lemma genSyntax_dg_frame: "genSyntax_dg s a = Inr (r, s') \<Longrightarrow> same_frame s s'"
proof (induction a arbitrary: s r s')
  case (SimpleSyntax x1 x2)
  then show ?case by (cases x2) (auto dest!: ebind_Inr)
next
  case (BitsSyntax x)
  then show ?case by auto
next
  case (ConceptualTable a)
  from ConceptualTable.prems obtain row s1 where
    r: "genSyntax_dg s a = Inr (row, s1)" and
    f: "(if \<not> truthy (snd row) then Inr ((''MibTable'', JStr []), s1)
       else case snd row of
         JStr t \<Rightarrow>
           if last2 t = ''()''
           then Inr ((''MibTable'', JStr []),
                     s1\<lparr>dg_rows := insert (take (length t - 2) t) (dg_rows s1)\<rparr>)
           else Inr ((''MibTable'', JStr []), s1)
       | JList xs \<Rightarrow> Inr ((''MibTable'', JStr []), s1)
       | _ \<Rightarrow> Inl TypeError) = Inr (r, s')"
    by (auto dest!: ebind_Inr)
  from f have "same_frame s1 s'"
    by (auto simp: same_frame_def split: if_splits json.splits)
  with ConceptualTable.IH [OF r] show ?case by (rule same_frame_trans)
next
  case (Row x)
  then show ?case by (auto split: option.splits if_splits)
next
  case (SequenceSyntax x)
  then show ?case by (auto simp: same_frame_def)
qed

lemma genTableIndex_loop_frame:
  "genTableIndex_loop idx s a b c = Inr (r, s') \<Longrightarrow> same_frame s s'"
proof (induction idx arbitrary: s a b c)
  case Nil
  then show ?case by simp
next
  case (Cons i idx)
  show ?case
  proof (cases "snd i \<in> set smiv1IdxTypes")
    case True
    with Cons.prems have
      "genTableIndex_loop idx (s\<lparr>dg_fakeidx := dg_fakeidx s + 1\<rparr>)
         (a @ [index_entry s KObject]) (b @ [KStr ''module'']) (c @ [KObject]) = Inr (r, s')"
      by (simp add: genFakeSyms_def)
    from Cons.IH [OF this] show ?thesis by (simp add: same_frame_def)
  next
    case False
    with Cons.prems Cons.IH show ?thesis by simp
  qed
qed

lemma genDefVal_frame: "genDefVal lim s d n = Inr (j, s') \<Longrightarrow> same_frame s s'"
  by (auto simp: genDefVal_def same_frame_def getBaseType_order
      split: option.splits if_splits sum.splits prod.splits)


lemma genOid_dg_pure: "genOid_dg lim s oid = Inr r \<Longrightarrow> True"
  by simp

lemma oid_clause_frame:
  "ebind (genOid_dg lim s oid) (\<lambda>(oidStr, parentOid). regSym_dg n (f oidStr) s) = Inr s'
     \<Longrightarrow> same_frame s s'"
  by (auto dest!: ebind_Inr regSym_dg_frame)

lemma genObjectType_dg_frame:
  "genObjectType_dg lim s name syn units maxaccess description augmention index defval oid = Inr s'
     \<Longrightarrow> same_frame s s'"
proof -
  assume a: "genObjectType_dg lim s name syn units maxaccess description augmention index defval oid = Inr s'"
  from a obtain syntax' s1 where 1: "genSyntax_dg s syn = Inr (syntax', s1)"
    unfolding genObjectType_dg_def by (auto dest!: ebind_Inr)
  from a 1 obtain indexStr s2 where
    2: "(case index of None \<Rightarrow> Inr ([], s1)
         | Some idx \<Rightarrow> ebind (genTableIndex s1 idx) (\<lambda>((indexStr, fakeStrlist, fakeSyms), s2).
                           Inr (indexStr, s2))) = Inr (indexStr, s2)"
    unfolding genObjectType_dg_def by (auto dest!: ebind_Inr)
  from a 1 2 obtain defval' s3 r where
    3: "genDefVal lim s2 defval (transOpers name) = Inr (defval', s3)" and
    4: "regSym_dg (transOpers name) r s3 = Inr s'"
    unfolding genObjectType_dg_def by (auto dest!: ebind_Inr)
  have f1: "same_frame s s1" using 1 by (rule genSyntax_dg_frame)
  have f2: "same_frame s1 s2"
    using 2 by (cases index) (auto simp: genTableIndex_def dest!: ebind_Inr genTableIndex_loop_frame)
  have f3: "same_frame s2 s3" using 3 by (rule genDefVal_frame)
  have f4: "same_frame s3 s'" using 4 by (rule regSym_dg_frame)
  from f1 f2 f3 f4 show ?thesis by (blast intro: same_frame_trans)
qed

lemma genTypeDeclaration_dg_frame:
  "genTypeDeclaration_dg s name rhs = Inr s' \<Longrightarrow> same_frame s s'"
  by (auto simp: genTypeDeclaration_dg_def genTypeDeclarationRHS_dg_def
      split: option.splits rhs_ast.splits if_splits dest!: ebind_Inr)
    (blast dest: genSyntax_dg_frame regSym_dg_frame intro: same_frame_trans)+

lemma handle_dg_frame: "handle_dg lim s d = Inr s' \<Longrightarrow> same_frame s s'"
  by (cases d)
    (auto simp: genAgentCapabilities_dg_def genModuleIdentity_dg_def genModuleCompliance_dg_def
       genNotificationGroup_dg_def genNotificationType_dg_def genObjectGroup_dg_def
       gen_objects_clause_def genObjectIdentity_dg_def genValueDeclaration_dg_def
       genTrapType_dg_def
       dest: oid_clause_frame genObjectType_dg_frame genTypeDeclaration_dg_frame)

lemma handle_all_dg_frame: "handle_all_dg lim s ds = Inr s' \<Longrightarrow> same_frame s s'"
proof (induction ds arbitrary: s)
  case Nil
  then show ?case by simp
next
  case (Cons d ds)
  then show ?case
    by (auto split: sum.splits dest: handle_dg_frame intro: same_frame_trans)
qed

lemma reg_imports_dg_frame: "reg_imports_dg mods imps s od = Inr (od', s') \<Longrightarrow> same_frame s s'"
proof (induction mods arbitrary: s od)
  case Nil
  then show ?case by simp
next
  case (Cons m mods)
  show ?case
  proof (cases "import_symbols imps m = []")
    case True
    with Cons show ?thesis by simp
  next
    case False
    with Cons.prems have ne: "m \<noteq> ''class''" by (auto split: if_splits)
    from Cons.prems False ne Cons.IH show ?thesis
      by (fastforce simp: same_frame_def)
  qed
qed


lemma od_set_keys: "map fst (od_set k v d) = add_once k (map fst d)"
  by (induction d) (force simp: add_once_def)+

lemma emit_records_keys:
  "emit_records order out d = Inr d' \<Longrightarrow> map fst d' = fold add_once order (map fst d)"
  by (induction order arbitrary: d) (auto simp: od_set_keys split: option.splits)

lemma emit_records_all:
  "emit_records order out d = Inr d' \<Longrightarrow> list_all (has_key out) order"
  by (induction order arbitrary: d) (auto simp: has_key_def split: option.splits)

lemma emit_records_missing:
  "x \<in> set order \<Longrightarrow> out x = None \<Longrightarrow>
     \<exists>y. y \<in> set order \<and> out y = None \<and> emit_records order out d = Inl (PySmiCodegenError y)"
proof (induction order arbitrary: d)
  case Nil
  then show ?case by simp
next
  case (Cons a order)
  show ?case
  proof (cases "out a")
    case None
    then show ?thesis by auto
  next
    case (Some r)
    with Cons.prems have "x \<in> set order" by auto
    from Cons.IH [OF this Cons.prems(2), of "od_set a r d"] Some show ?thesis by auto
  qed
qed

lemma add_meta_keys:
  "map fst (add_meta comments n d) =
     fold add_once (case comments of None \<Rightarrow> [] | Some cs \<Rightarrow> [''meta'']) (map fst d)"
  by (cases comments) (auto simp: add_meta_def od_set_keys)

lemma fold_add_once_distinct:
  "distinct (ks @ xs) \<Longrightarrow> fold add_once xs ks = ks @ xs"
  by (induction xs arbitrary: ks) (auto simp: add_once_def)

lemma genImports_dg_result:
  assumes "genImports_dg convtab s imps = Some (Inr (outDict, mods, s1))"
  shows "map fst outDict = [''imports''] \<and> same_frame s s1"
proof -
  from assms obtain imps' where
    r: "ebind (reg_imports_dg (sort (map fst imps')) imps' s [(''class'', JStr ''imports'')])
          (\<lambda>(outDict, s'). Inr ([(''imports'', JObj outDict)], sort (map fst imps'), s')) =
        Inr (outDict, mods, s1)"
    by (auto simp: genImports_dg_def split: option.splits)
  then obtain od where "reg_imports_dg (sort (map fst imps')) imps' s [(''class'', JStr ''imports'')] = Inr (od, s1)"
      and "outDict = [(''imports'', JObj od)]"
    by (auto dest!: ebind_Inr)
  then show ?thesis by (auto dest: reg_imports_dg_frame)
qed

lemma reset_dg_frame:
  "dg_moduleName (reset_dg inst ast symbolTable genTexts) = ast_moduleName ast \<and>
   dg_symbolTable (reset_dg inst ast symbolTable genTexts) = symbolTable"
  by (simp add: reset_dg_def)

lemma genCode_dg_parts:
  assumes "genCode_dg lim convtab fakeMibs inst ast symbolTable genTexts comments = Some (Inr ((name, imported, doc), s))"
  shows "\<exists>outDict mods s1 mt d.
     genImports_dg convtab (reset_dg inst ast symbolTable genTexts) (ast_imports ast) = Some (Inr (outDict, mods, s1)) \<and>
     handle_all_dg lim s1 (ast_declarations ast) = Inr s \<and>
     dg_symbolTable s (dg_moduleName s) = Some mt \<and>
     emit_records (st_order mt) (dg_out s) outDict = Inr d \<and>
     doc = add_meta comments (dg_moduleName s) d"
  using assms
  by (auto simp: genCode_dg_def finish_dg_def split: option.splits if_splits dest!: ebind_Inr)

lemma frame_order:
  assumes "same_frame s s'" "dg_symbolTable s' (dg_moduleName s') = Some mt'"
  shows "\<exists>mt. dg_symbolTable s (dg_moduleName s) = Some mt \<and> st_order mt = st_order mt'"
proof -
  from assms(1) have n: "dg_moduleName s' = dg_moduleName s"
    and e: "map_option st_order (dg_symbolTable s' (dg_moduleName s)) = map_option st_order (dg_symbolTable s (dg_moduleName s))"
    by (auto simp: same_frame_def dest: fun_cong)
  with assms(2) show ?thesis by (cases "dg_symbolTable s (dg_moduleName s)") auto
qed

lemma frame_order_rev:
  assumes "same_frame s s'" "dg_symbolTable s (dg_moduleName s) = Some mt"
  shows "\<exists>mt'. dg_symbolTable s' (dg_moduleName s') = Some mt' \<and> st_order mt' = st_order mt"
proof -
  from assms(1) have n: "dg_moduleName s' = dg_moduleName s"
    and e: "map_option st_order (dg_symbolTable s' (dg_moduleName s)) = map_option st_order (dg_symbolTable s (dg_moduleName s))"
    by (auto simp: same_frame_def dest: fun_cong)
  with assms(2) show ?thesis by (cases "dg_symbolTable s' (dg_moduleName s)") auto
qed

text \<open>
  C9. The keys of the document. When \<^verbatim>\<open>JsonCodeGen.genCode\<close> returns, the module has a
  table in the symbol table, every name of its \<^verbatim>\<open>_symtable_order\<close> has a record in
  \<^verbatim>\<open>_out\<close>, and the keys of the document are \<^verbatim>\<open>imports\<close>, then the names of
  \<^verbatim>\<open>_symtable_order\<close>, then \<^verbatim>\<open>meta\<close> when comments are given, each key at the place of
  its first occurrence; when these names are distinct the keys are exactly this list.
  When the imports and the declarations have been handled and a name of
  \<^verbatim>\<open>_symtable_order\<close> has no record in \<^verbatim>\<open>_out\<close>, \<^verbatim>\<open>genCode\<close> raises
  \<^verbatim>\<open>PySmiCodegenError\<close> for such a name.
\<close>

theorem genCode_dg_document_keys:
  "(genCode_dg lim convtab fakeMibs inst ast symbolTable genTexts comments =
      Some (Inr ((name, imported, doc), s)) \<longrightarrow>
      (\<exists>mt. symbolTable (ast_moduleName ast) = Some mt \<and>
         map fst doc =
           fold add_once (st_order mt @ (case comments of None \<Rightarrow> [] | Some cs \<Rightarrow> [''meta'']))
             [''imports''] \<and>
         (distinct (''imports'' # st_order mt @
                      (case comments of None \<Rightarrow> [] | Some cs \<Rightarrow> [''meta'']))
            \<longrightarrow> map fst doc = ''imports'' # st_order mt @
                      (case comments of None \<Rightarrow> [] | Some cs \<Rightarrow> [''meta''])) \<and>
         list_all (has_key (dg_out s)) (st_order mt)))
   \<and> (genImports_dg convtab (reset_dg inst ast symbolTable genTexts) (ast_imports ast) =
         Some (Inr (outDict, mods, s1)) \<and>
       handle_all_dg lim s1 (ast_declarations ast) = Inr s2 \<and>
       symbolTable (ast_moduleName ast) = Some mt' \<and>
       x \<in> set (st_order mt') \<and> dg_out s2 x = None \<longrightarrow>
       (\<exists>y. y \<in> set (st_order mt') \<and> dg_out s2 y = None \<and>
            genCode_dg lim convtab fakeMibs inst ast symbolTable genTexts comments =
              Some (Inl (PySmiCodegenError y))))"
proof (intro conjI impI)
  let ?meta = "case comments of None \<Rightarrow> [] | Some cs \<Rightarrow> [''meta'']"
  assume "genCode_dg lim convtab fakeMibs inst ast symbolTable genTexts comments =
      Some (Inr ((name, imported, doc), s))"
  from genCode_dg_parts [OF this] obtain od mods' t1 mt2 d where
    p: "genImports_dg convtab (reset_dg inst ast symbolTable genTexts) (ast_imports ast) =
          Some (Inr (od, mods', t1))"
       "handle_all_dg lim t1 (ast_declarations ast) = Inr s"
       "dg_symbolTable s (dg_moduleName s) = Some mt2"
       "emit_records (st_order mt2) (dg_out s) od = Inr d"
       "doc = add_meta comments (dg_moduleName s) d"
    by blast
  from genImports_dg_result [OF p(1)] have
    k: "map fst od = [''imports'']" and f1: "same_frame (reset_dg inst ast symbolTable genTexts) t1"
    by auto
  from handle_all_dg_frame [OF p(2)] f1 have
    "same_frame (reset_dg inst ast symbolTable genTexts) s" by (blast intro: same_frame_trans)
  from frame_order [OF this p(3)] obtain mt where
    mt: "symbolTable (ast_moduleName ast) = Some mt" "st_order mt = st_order mt2"
    by (auto simp: reset_dg_frame)
  have keys: "map fst doc = fold add_once (st_order mt @ ?meta) [''imports'']"
    using p(4,5) k mt(2) by (simp add: add_meta_keys emit_records_keys)
  moreover have "distinct (''imports'' # st_order mt @ ?meta)
       \<longrightarrow> map fst doc = ''imports'' # st_order mt @ ?meta"
    using keys fold_add_once_distinct [of "[''imports'']" "st_order mt @ ?meta"] by simp
  moreover have "list_all (has_key (dg_out s)) (st_order mt)"
    using emit_records_all [OF p(4)] mt(2) by simp
  ultimately show "\<exists>mt. symbolTable (ast_moduleName ast) = Some mt \<and>
         map fst doc = fold add_once (st_order mt @ ?meta) [''imports''] \<and>
         (distinct (''imports'' # st_order mt @ ?meta)
            \<longrightarrow> map fst doc = ''imports'' # st_order mt @ ?meta) \<and>
         list_all (has_key (dg_out s)) (st_order mt)"
    using mt(1) by (intro exI [of _ mt] conjI)
next
  assume a: "genImports_dg convtab (reset_dg inst ast symbolTable genTexts) (ast_imports ast) =
         Some (Inr (outDict, mods, s1)) \<and>
       handle_all_dg lim s1 (ast_declarations ast) = Inr s2 \<and>
       symbolTable (ast_moduleName ast) = Some mt' \<and>
       x \<in> set (st_order mt') \<and> dg_out s2 x = None"
  from a genImports_dg_result have f1: "same_frame (reset_dg inst ast symbolTable genTexts) s1"
    by blast
  from a handle_all_dg_frame have "same_frame s1 s2" by blast
  with f1 have "same_frame (reset_dg inst ast symbolTable genTexts) s2"
    by (rule same_frame_trans)
  from frame_order_rev [OF this] a obtain mt2 where
    mt2: "dg_symbolTable s2 (dg_moduleName s2) = Some mt2" "st_order mt2 = st_order mt'"
    by (auto simp: reset_dg_frame)
  from a mt2(2) emit_records_missing [of x "st_order mt2" "dg_out s2" outDict] obtain y where
    y: "y \<in> set (st_order mt')" "dg_out s2 y = None"
       "emit_records (st_order mt2) (dg_out s2) outDict = Inl (PySmiCodegenError y)"
    by auto
  have "genCode_dg lim convtab fakeMibs inst ast symbolTable genTexts comments =
              Some (Inl (PySmiCodegenError y))"
    using a mt2(1) y(3) by (simp add: genCode_dg_def finish_dg_def)
  with y show "\<exists>y. y \<in> set (st_order mt') \<and> dg_out s2 y = None \<and>
            genCode_dg lim convtab fakeMibs inst ast symbolTable genTexts comments =
              Some (Inl (PySmiCodegenError y))"
    by blast
qed

theorem genCode_dg_document_keys_witness:
  "(\<exists>name imported doc s.
      genCode_dg 1000 [] [] new_dg trap_ast (own_tabs trap_ast) False None =
        Some (Inr ((name, imported, doc), s)) \<and>
      map fst doc = [''imports'', ''snmp'', ''coldStart'']) \<and>
   (\<exists>y. genCode_dg 1000 [] [] new_dg (index_ast_of ''IPADDRESS'')
           (own_tabs (index_ast_of ''IPADDRESS'')) False None =
         Some (Inl (PySmiCodegenError y)))"
proof
  have "case genCode_dg 1000 [] [] new_dg trap_ast (own_tabs trap_ast) False None of
          Some (Inr r) \<Rightarrow> True | _ \<Rightarrow> False"
    by code_simp
  then obtain name imported doc s where
    g: "genCode_dg 1000 [] [] new_dg trap_ast (own_tabs trap_ast) False None =
          Some (Inr ((name, imported, doc), s))"
    by (auto split: option.splits sum.splits)
  have o: "map_option st_order (own_tabs trap_ast (ast_moduleName trap_ast)) =
      Some [''snmp'', ''coldStart'']"
    by code_simp
  from genCode_dg_document_keys [of 1000 "[]" "[]" new_dg trap_ast "own_tabs trap_ast" False None
      name imported doc s, THEN conjunct1, rule_format, OF g]
  obtain mt where "own_tabs trap_ast (ast_moduleName trap_ast) = Some mt"
    and "distinct (''imports'' # st_order mt) \<longrightarrow> map fst doc = ''imports'' # st_order mt"
    by auto
  with o have k: "map fst doc = [''imports'', ''snmp'', ''coldStart'']" by auto
  show "\<exists>name imported doc s.
      genCode_dg 1000 [] [] new_dg trap_ast (own_tabs trap_ast) False None =
        Some (Inr ((name, imported, doc), s)) \<and>
      map fst doc = [''imports'', ''snmp'', ''coldStart'']"
    by (intro exI conjI) (rule g, rule k)
next
  let ?ast = "index_ast_of ''IPADDRESS''"
  have "case genImports_dg [] (reset_dg new_dg ?ast (own_tabs ?ast) False) (ast_imports ?ast) of
          Some (Inr (outDict, mods, s1)) \<Rightarrow>
            (case handle_all_dg 1000 s1 (ast_declarations ?ast) of
               Inr s2 \<Rightarrow> dg_out s2 ''pysmiFakeCol1000'' = None | Inl e \<Rightarrow> False)
        | _ \<Rightarrow> False"
    by code_simp
  then obtain outDict mods s1 where
    g: "genImports_dg [] (reset_dg new_dg ?ast (own_tabs ?ast) False) (ast_imports ?ast) =
          Some (Inr (outDict, mods, s1))"
    and c: "case handle_all_dg 1000 s1 (ast_declarations ?ast) of
              Inr s2 \<Rightarrow> dg_out s2 ''pysmiFakeCol1000'' = None | Inl e \<Rightarrow> False"
    by (auto split: option.splits sum.splits)
  from c obtain s2 where h: "handle_all_dg 1000 s1 (ast_declarations ?ast) = Inr s2"
    and n: "dg_out s2 ''pysmiFakeCol1000'' = None"
    by (cases "handle_all_dg 1000 s1 (ast_declarations ?ast)") auto
  have "case own_tabs ?ast (ast_moduleName ?ast) of
          Some mt \<Rightarrow> ''pysmiFakeCol1000'' \<in> set (st_order mt) | None \<Rightarrow> False"
    by code_simp
  then obtain mt where t: "own_tabs ?ast (ast_moduleName ?ast) = Some mt"
    and m: "''pysmiFakeCol1000'' \<in> set (st_order mt)"
    by (auto split: option.splits)
  from genCode_dg_document_keys [of 1000 "[]" "[]" new_dg ?ast "own_tabs ?ast" False None
      _ _ _ _ outDict mods s1 s2 mt "''pysmiFakeCol1000''", THEN conjunct2, rule_format]
    g h n t m
  show "\<exists>y. genCode_dg 1000 [] [] new_dg ?ast (own_tabs ?ast) False None =
         Some (Inl (PySmiCodegenError y))"
    by blast
qed

text \<open>
  A declared value named \<^verbatim>\<open>imports\<close> is stored under the key of the imports record:
  the document has the one key \<^verbatim>\<open>imports\<close>, holding the record of the value, while
  \<^verbatim>\<open>_symtable_order\<close> is \<^verbatim>\<open>[imports]\<close>.
\<close>

theorem imports_symbol_takes_imports_key:
  "dg_document imports_ast =
     Some (Inr [(''imports'', JObj [(''name'', JStr ''imports''), (''oid'', JStr ''1.1''),
                                   (''class'', JStr ''objectidentity'')])]) \<and>
   map_option st_order (stb_symtab imports_ast) = Some [''imports'']"
  by code_simp

section \<open>Duplicate symbols in the document generator\<close>

lemma fold_import_keys:
  "(\<exists>y. fold (\<lambda>sn m. m(transOpers sn \<mapsto> module)) xs m0 k = Some y) \<longleftrightarrow>
     (\<exists>y. m0 k = Some y) \<or> k \<in> transOpers ` set xs"
  by (induction xs arbitrary: m0) auto

lemma reg_imports_dg_mono:
  "reg_imports_dg ms imps s od = Inr (od', s') \<Longrightarrow>
     (dg_importMap s k \<noteq> None \<longrightarrow> dg_importMap s' k \<noteq> None) \<and>
     (k \<in> dg_seenSyms s \<longrightarrow> k \<in> dg_seenSyms s')"
proof (induction ms imps s od rule: reg_imports_dg.induct)
  case (1 imps s outDict)
  then show ?case by simp
next
  case (2 module rest imps s outDict)
  show ?case
  proof (cases "import_symbols imps module = []")
    case True
    with 2 show ?thesis by simp
  next
    case False
    with "2.prems" have c: "module \<noteq> ''class''" by (auto split: if_splits)
    from "2.IH"(2) [OF False c] "2.prems" False c show ?thesis
      by (simp add: fold_import_keys)
  qed
qed

lemma reg_imports_dg_registered:
  "reg_imports_dg ms imps s od = Inr (od', s') \<Longrightarrow> module \<in> set ms \<Longrightarrow>
   name \<in> set (import_symbols imps module) \<Longrightarrow>
     dg_importMap s' (transOpers name) \<noteq> None \<and> transOpers name \<in> dg_seenSyms s'"
proof (induction ms imps s od rule: reg_imports_dg.induct)
  case (1 imps s outDict)
  then show ?case by simp
next
  case (2 m rest imps s outDict)
  show ?case
  proof (cases "import_symbols imps m = []")
    case True
    with "2.prems" have "module \<in> set rest" by auto
    with "2.IH"(1) [OF True] "2.prems" True show ?thesis by simp
  next
    case False
    with "2.prems" have c: "m \<noteq> ''class''" by (auto split: if_splits)
    let ?s = "s\<lparr>dg_seenSyms := dg_seenSyms s \<union> set (map transOpers (import_symbols imps m)),
                dg_importMap := fold (\<lambda>sym m'. m'(transOpers sym \<mapsto> m))
                                  (import_symbols imps m) (dg_importMap s)\<rparr>"
    let ?od = "od_set m (JList (map JStr (import_symbols imps m))) outDict"
    from "2.prems"(1) False c have r: "reg_imports_dg rest imps ?s ?od = Inr (od', s')" by simp
    show ?thesis
    proof (cases "module = m")
      case True
      with "2.prems"(3) have "dg_importMap ?s (transOpers name) \<noteq> None"
          and "transOpers name \<in> dg_seenSyms ?s"
        by (auto simp: fold_import_keys)
      with reg_imports_dg_mono [OF r, of "transOpers name"] show ?thesis by blast
    next
      case False
      with "2.prems" have "module \<in> set rest" by auto
      from "2.IH"(2) [OF \<open>import_symbols imps m \<noteq> []\<close> c r this "2.prems"(3)] show ?thesis .
    qed
  qed
qed

lemma reg_imports_dg_seen:
  "reg_imports_dg ms imps s od = Inr (od', s') \<Longrightarrow>
   dg_seenSyms s = {n. dg_importMap s n \<noteq> None} \<Longrightarrow>
     dg_seenSyms s' = {n. dg_importMap s' n \<noteq> None}"
proof (induction ms imps s od rule: reg_imports_dg.induct)
  case (1 imps s outDict)
  then show ?case by simp
next
  case (2 module rest imps s outDict)
  show ?case
  proof (cases "import_symbols imps module = []")
    case True
    with 2 show ?thesis by simp
  next
    case False
    with "2.prems" have c: "module \<noteq> ''class''" by (auto split: if_splits)
    let ?s = "s\<lparr>dg_seenSyms := dg_seenSyms s \<union> set (map transOpers (import_symbols imps module)),
                dg_importMap := fold (\<lambda>sym m. m(transOpers sym \<mapsto> module))
                                  (import_symbols imps module) (dg_importMap s)\<rparr>"
    let ?od = "od_set module (JList (map JStr (import_symbols imps module))) outDict"
    from "2.prems"(1) False c have r: "reg_imports_dg rest imps ?s ?od = Inr (od', s')" by simp
    have inv: "dg_seenSyms ?s = {n. dg_importMap ?s n \<noteq> None}"
      using "2.prems"(2) by (auto simp: fold_import_keys)
    from "2.IH"(2) [OF False c r inv] show ?thesis .
  qed
qed

lemma genImports_dg_seen:
  assumes "genImports_dg convtab (reset_dg inst ast symbolTable genTexts) imps =
             Some (Inr (doc, mods, s))"
  shows "dg_seenSyms s = {n. dg_importMap s n \<noteq> None}"
proof -
  from assms obtain imps' where
    "ebind (reg_imports_dg (sort (map fst imps')) imps' (reset_dg inst ast symbolTable genTexts)
              [(''class'', JStr ''imports'')])
          (\<lambda>(outDict, s'). Inr ([(''imports'', JObj outDict)], sort (map fst imps'), s')) =
        Inr (doc, mods, s)"
    by (auto simp: genImports_dg_def split: option.splits)
  then obtain od where
    "reg_imports_dg (sort (map fst imps')) imps' (reset_dg inst ast symbolTable genTexts)
       [(''class'', JStr ''imports'')] = Inr (od, s)"
    by (cases "reg_imports_dg (sort (map fst imps')) imps' (reset_dg inst ast symbolTable genTexts)
                 [(''class'', JStr ''imports'')]") auto
  then show ?thesis
    by (rule reg_imports_dg_seen) (simp add: reset_dg_def)
qed

lemma fold_regSym_dg_Inl:
  "fold (\<lambda>(n, r) acc. ebind acc (regSym_dg n r)) rs (Inl e) = Inl e"
  by (induction rs) auto

lemma fold_regSym_dg_distinct:
  "(\<exists>s'. fold (\<lambda>(n, r) acc. ebind acc (regSym_dg n r)) rs (Inr s) = Inr s') \<longleftrightarrow>
     distinct (filter (\<lambda>n. dg_importMap s n = None) (map fst rs)) \<and>
     (\<forall>n \<in> set (map fst rs). dg_importMap s n = None \<longrightarrow> n \<notin> dg_seenSyms s)"
proof (induction rs arbitrary: s)
  case Nil
  show ?case by simp
next
  case (Cons a rs)
  obtain n r where a: "a = (n, r)" by (cases a)
  show ?case
  proof (cases "n \<in> dg_seenSyms s \<and> dg_importMap s n = None")
    case True
    then have "regSym_dg n r s = Inl (PySmiSemanticError (DuplicateSymbol n))"
      by (simp add: regSym_dg_def)
    with True a show ?thesis by (auto simp: fold_regSym_dg_Inl)
  next
    case False
    let ?s = "s\<lparr>dg_seenSyms := insert n (dg_seenSyms s), dg_out := (dg_out s)(n \<mapsto> r)\<rparr>"
    from False have "regSym_dg n r s = Inr ?s" by (auto simp: regSym_dg_def)
    with a have "(\<exists>s'. fold (\<lambda>(n, r) acc. ebind acc (regSym_dg n r)) (a # rs) (Inr s) = Inr s') \<longleftrightarrow>
        (\<exists>s'. fold (\<lambda>(n, r) acc. ebind acc (regSym_dg n r)) rs (Inr ?s) = Inr s')"
      by simp
    also have "\<dots> \<longleftrightarrow> distinct (filter (\<lambda>n. dg_importMap ?s n = None) (map fst rs)) \<and>
        (\<forall>k \<in> set (map fst rs). dg_importMap ?s k = None \<longrightarrow> k \<notin> dg_seenSyms ?s)"
      by (rule Cons.IH)
    also have "\<dots> \<longleftrightarrow> distinct (filter (\<lambda>n. dg_importMap s n = None) (map fst (a # rs))) \<and>
        (\<forall>k \<in> set (map fst (a # rs)). dg_importMap s k = None \<longrightarrow> k \<notin> dg_seenSyms s)"
      using False a by auto
    finally show ?thesis .
  qed
qed

text \<open>
  C10. \<^verbatim>\<open>JsonCodeGen.regSym\<close> raises exactly when the name is in \<^verbatim>\<open>_seenSyms\<close> and not in
  \<^verbatim>\<open>_importMap\<close>, and what it raises is the duplicate-symbol error. A registration that
  succeeds adds the name to \<^verbatim>\<open>_seenSyms\<close>, leaves \<^verbatim>\<open>_importMap\<close> as it is and stores the
  record in \<^verbatim>\<open>_out\<close>; so a second registration of a name that is not imported raises,
  and a second registration of an imported name succeeds and \<^verbatim>\<open>_out\<close> holds the later
  record. After \<^verbatim>\<open>genImports\<close> every imported symbol (of the rewritten imports) is, under
  its normalized name, in \<^verbatim>\<open>_importMap\<close> and \<^verbatim>\<open>_seenSyms\<close>; when \<^verbatim>\<open>genImports\<close> starts
  from the state \<^verbatim>\<open>genCode\<close> sets up, the names seen afterwards are exactly the imported
  ones, so a first registration never raises. From such a state a sequence of
  registrations succeeds exactly when the names that are not imported are distinct.
\<close>

theorem regSym_dg_duplicate_iff:
  "((\<exists>e. regSym_dg symbol outDict s = Inl e) =
      (symbol \<in> dg_seenSyms s \<and> dg_importMap s symbol = None)) \<and>
   (regSym_dg symbol outDict s = Inl e \<longrightarrow> e = PySmiSemanticError (DuplicateSymbol symbol)) \<and>
   (regSym_dg symbol outDict s = Inr t \<longrightarrow>
      dg_seenSyms t = insert symbol (dg_seenSyms s) \<and>
      dg_importMap t = dg_importMap s \<and>
      dg_out t = (dg_out s)(symbol \<mapsto> outDict) \<and>
      (dg_importMap s symbol = None \<longrightarrow>
         regSym_dg symbol later t = Inl (PySmiSemanticError (DuplicateSymbol symbol))) \<and>
      (dg_importMap s symbol \<noteq> None \<longrightarrow>
         (\<exists>s2. regSym_dg symbol later t = Inr s2 \<and> dg_out s2 symbol = Some later))) \<and>
   (dg_importMap s symbol \<noteq> None \<longrightarrow>
      (\<exists>s1 s2. regSym_dg symbol earlier s = Inr s1 \<and> dg_out s1 symbol = Some earlier \<and>
               regSym_dg symbol later s1 = Inr s2 \<and> dg_out s2 symbol = Some later)) \<and>
   (genImports_dg convtab s0 imps = Some (Inr (doc, mods, s)) \<and>
    rewrite_imports convtab constImports_dg imps = Some imps' \<and>
    map_of imps' module = Some names \<and> name \<in> set names \<longrightarrow>
      dg_importMap s (transOpers name) \<noteq> None \<and> transOpers name \<in> dg_seenSyms s \<and>
      (\<exists>s'. regSym_dg (transOpers name) outDict s = Inr s')) \<and>
   (genImports_dg convtab (reset_dg inst ast symbolTable genTexts) imps = Some (Inr (doc, mods, s))
      \<longrightarrow> dg_seenSyms s = {n. dg_importMap s n \<noteq> None} \<and>
          (\<exists>s'. regSym_dg symbol outDict s = Inr s')) \<and>
   (dg_seenSyms s = {n. dg_importMap s n \<noteq> None} \<longrightarrow>
      (\<exists>s'. fold (\<lambda>(n, r) acc. ebind acc (regSym_dg n r)) rs (Inr s) = Inr s') =
      distinct (filter (\<lambda>n. dg_importMap s n = None) (map fst rs)))"
proof (intro conjI impI)
  show "(\<exists>e. regSym_dg symbol outDict s = Inl e) =
      (symbol \<in> dg_seenSyms s \<and> dg_importMap s symbol = None)"
    by (simp add: regSym_dg_def)
  show "e = PySmiSemanticError (DuplicateSymbol symbol)" if "regSym_dg symbol outDict s = Inl e"
    using that by (simp add: regSym_dg_def split: if_splits)
  show "\<exists>s1 s2. regSym_dg symbol earlier s = Inr s1 \<and> dg_out s1 symbol = Some earlier \<and>
               regSym_dg symbol later s1 = Inr s2 \<and> dg_out s2 symbol = Some later"
    if "dg_importMap s symbol \<noteq> None"
    using that by (simp add: regSym_dg_def)
  show "dg_seenSyms t = insert symbol (dg_seenSyms s)"
    and "dg_importMap t = dg_importMap s"
    and "dg_out t = (dg_out s)(symbol \<mapsto> outDict)"
    if "regSym_dg symbol outDict s = Inr t"
    using that by (auto simp: regSym_dg_def split: if_splits)
  show "regSym_dg symbol later t = Inl (PySmiSemanticError (DuplicateSymbol symbol))"
    if "regSym_dg symbol outDict s = Inr t" "dg_importMap s symbol = None"
    using that by (auto simp: regSym_dg_def split: if_splits)
  show "\<exists>s2. regSym_dg symbol later t = Inr s2 \<and> dg_out s2 symbol = Some later"
    if "regSym_dg symbol outDict s = Inr t" "dg_importMap s symbol \<noteq> None"
    using that by (auto simp: regSym_dg_def split: if_splits)
  show "(\<exists>s'. fold (\<lambda>(n, r) acc. ebind acc (regSym_dg n r)) rs (Inr s) = Inr s') =
      distinct (filter (\<lambda>n. dg_importMap s n = None) (map fst rs))"
    if "dg_seenSyms s = {n. dg_importMap s n \<noteq> None}"
    using that by (auto simp: fold_regSym_dg_distinct)
next
  assume g: "genImports_dg convtab (reset_dg inst ast symbolTable genTexts) imps =
    Some (Inr (doc, mods, s))"
  then show i: "dg_seenSyms s = {n. dg_importMap s n \<noteq> None}" by (rule genImports_dg_seen)
  then show "\<exists>s'. regSym_dg symbol outDict s = Inr s'"
    by (auto simp: regSym_dg_def)
next
  assume a: "genImports_dg convtab s0 imps = Some (Inr (doc, mods, s)) \<and>
    rewrite_imports convtab constImports_dg imps = Some imps' \<and>
    map_of imps' module = Some names \<and> name \<in> set names"
  then have "ebind (reg_imports_dg (sort (map fst imps')) imps' s0 [(''class'', JStr ''imports'')])
          (\<lambda>(outDict, s'). Inr ([(''imports'', JObj outDict)], sort (map fst imps'), s')) =
        Inr (doc, mods, s)"
    by (auto simp: genImports_dg_def)
  then obtain od where
    r: "reg_imports_dg (sort (map fst imps')) imps' s0 [(''class'', JStr ''imports'')] = Inr (od, s)"
    by (cases "reg_imports_dg (sort (map fst imps')) imps' s0 [(''class'', JStr ''imports'')]") auto
  from a have m: "module \<in> set (sort (map fst imps'))"
    by (auto dest: map_of_SomeD intro: rev_image_eqI)
  from a have n: "name \<in> set (import_symbols imps' module)" by (simp add: import_symbols_def)
  from reg_imports_dg_registered [OF r m n]
  show i: "dg_importMap s (transOpers name) \<noteq> None" and "transOpers name \<in> dg_seenSyms s"
    by simp_all
  then show "\<exists>s'. regSym_dg (transOpers name) outDict s = Inr s'"
    by (simp add: regSym_dg_def)
qed


theorem regSym_dg_duplicate_iff_witness:
  "(\<exists>doc mods s t.
      genImports_dg [] (reset_dg new_dg twice_ast (own_tabs twice_ast) False)
        (ast_imports twice_ast) = Some (Inr (doc, mods, s)) \<and>
      dg_importMap s ''a'' = None \<and> ''a'' \<notin> dg_seenSyms s \<and>
      regSym_dg ''a'' (JStr ''first'') s = Inr t \<and> ''a'' \<in> dg_seenSyms t \<and>
      regSym_dg ''a'' (JStr ''second'') t = Inl (PySmiSemanticError (DuplicateSymbol ''a'')) \<and>
      \<not> (\<exists>s'. fold (\<lambda>(n, r) acc. ebind acc (regSym_dg n r))
                  [(''a'', JStr ''first''), (''a'', JStr ''second'')] (Inr s) = Inr s')) \<and>
   (\<exists>doc mods s t1 t2.
      genImports_dg [] (reset_dg new_dg shadow_ast (own_tabs shadow_ast) False)
        (ast_imports shadow_ast) = Some (Inr (doc, mods, s)) \<and>
      dg_importMap s ''a'' \<noteq> None \<and> ''a'' \<in> dg_seenSyms s \<and>
      regSym_dg ''a'' (JStr ''first'') s = Inr t1 \<and> dg_out t1 ''a'' = Some (JStr ''first'') \<and>
      regSym_dg ''a'' (JStr ''second'') t1 = Inr t2 \<and> dg_out t2 ''a'' = Some (JStr ''second'')) \<and>
   dg_document twice_ast = Some (Inl (PySmiSemanticError (DuplicateSymbol ''a''))) \<and>
   dg_record shadow_ast ''a'' =
     Some (JObj [(''name'', JStr ''a''), (''oid'', JStr ''1.2''), (''class'', JStr ''objectidentity'')])"
proof (intro conjI)
  let ?r = "reset_dg new_dg twice_ast (own_tabs twice_ast) False"
  have "case genImports_dg [] ?r (ast_imports twice_ast) of
          Some (Inr (doc, mods, s)) \<Rightarrow> dg_importMap s ''a'' = None | _ \<Rightarrow> False"
    by code_simp
  then obtain doc mods s where
    g: "genImports_dg [] ?r (ast_imports twice_ast) = Some (Inr (doc, mods, s))"
    and n: "dg_importMap s ''a'' = None"
    by (auto split: option.splits sum.splits)
  from regSym_dg_duplicate_iff [where convtab = "[]" and inst = new_dg and ast = twice_ast
      and symbolTable = "own_tabs twice_ast" and genTexts = False
      and imps = "ast_imports twice_ast" and doc = doc and mods = mods and s = s
      and symbol = "''a''" and outDict = "JStr ''first''",
      THEN conjunct2, THEN conjunct2, THEN conjunct2, THEN conjunct2, THEN conjunct2,
      THEN conjunct1, rule_format, OF g]
  obtain t where inv: "dg_seenSyms s = {n. dg_importMap s n \<noteq> None}"
    and r1: "regSym_dg ''a'' (JStr ''first'') s = Inr t"
    by blast
  from inv n have ns: "''a'' \<notin> dg_seenSyms s" by simp
  from regSym_dg_duplicate_iff [where symbol = "''a''" and outDict = "JStr ''first''" and s = s
      and t = t and later = "JStr ''second''",
      THEN conjunct2, THEN conjunct2, THEN conjunct1, rule_format, OF r1] n
  have p: "dg_seenSyms t = insert ''a'' (dg_seenSyms s)"
    "regSym_dg ''a'' (JStr ''second'') t = Inl (PySmiSemanticError (DuplicateSymbol ''a''))"
    by simp_all
  from regSym_dg_duplicate_iff [where s = s
      and rs = "[(''a'', JStr ''first''), (''a'', JStr ''second'')]",
      THEN conjunct2, THEN conjunct2, THEN conjunct2, THEN conjunct2, THEN conjunct2,
      THEN conjunct2, rule_format, OF inv] n
  have f: "\<not> (\<exists>s'. fold (\<lambda>(n, r) acc. ebind acc (regSym_dg n r))
                  [(''a'', JStr ''first''), (''a'', JStr ''second'')] (Inr s) = Inr s')"
    by simp
  from p have "''a'' \<in> dg_seenSyms t" by simp
  with g n ns r1 p(2) f
  show "\<exists>doc mods s t.
      genImports_dg [] ?r (ast_imports twice_ast) = Some (Inr (doc, mods, s)) \<and>
      dg_importMap s ''a'' = None \<and> ''a'' \<notin> dg_seenSyms s \<and>
      regSym_dg ''a'' (JStr ''first'') s = Inr t \<and> ''a'' \<in> dg_seenSyms t \<and>
      regSym_dg ''a'' (JStr ''second'') t = Inl (PySmiSemanticError (DuplicateSymbol ''a'')) \<and>
      \<not> (\<exists>s'. fold (\<lambda>(n, r) acc. ebind acc (regSym_dg n r))
                  [(''a'', JStr ''first''), (''a'', JStr ''second'')] (Inr s) = Inr s')"
    by (intro exI [of _ doc] exI [of _ mods] exI [of _ s] exI [of _ t] conjI)
next
  let ?r = "reset_dg new_dg shadow_ast (own_tabs shadow_ast) False"
  have "case genImports_dg [] ?r (ast_imports shadow_ast) of
          Some (Inr r) \<Rightarrow> True | _ \<Rightarrow> False"
    by code_simp
  then obtain doc mods s where
    g: "genImports_dg [] ?r (ast_imports shadow_ast) = Some (Inr (doc, mods, s))"
    by (auto split: option.splits sum.splits)
  have rw: "rewrite_imports [] constImports_dg (ast_imports shadow_ast) =
      Some ((''OTHER-MIB'', [''a'']) # constImports_dg)"
    by code_simp
  have mo: "map_of ((''OTHER-MIB'', [''a'']) # constImports_dg) ''OTHER-MIB'' = Some [''a'']"
    by simp
  have tr: "transOpers ''a'' = ''a''" by code_simp
  from regSym_dg_duplicate_iff [where convtab = "[]" and ?s0.0 = ?r
      and imps = "ast_imports shadow_ast" and doc = doc and mods = mods and s = s
      and imps' = "(''OTHER-MIB'', [''a'']) # constImports_dg" and module = "''OTHER-MIB''"
      and names = "[''a'']" and name = "''a''",
      THEN conjunct2, THEN conjunct2, THEN conjunct2, THEN conjunct2, THEN conjunct1,
      rule_format] g rw mo
  have i: "dg_importMap s ''a'' \<noteq> None" "''a'' \<in> dg_seenSyms s"
    unfolding tr by simp_all
  from regSym_dg_duplicate_iff [where symbol = "''a''" and s = s
      and earlier = "JStr ''first''" and later = "JStr ''second''",
      THEN conjunct2, THEN conjunct2, THEN conjunct2, THEN conjunct1, rule_format, OF i(1)]
  obtain t1 t2 where
    r: "regSym_dg ''a'' (JStr ''first'') s = Inr t1" "dg_out t1 ''a'' = Some (JStr ''first'')"
       "regSym_dg ''a'' (JStr ''second'') t1 = Inr t2" "dg_out t2 ''a'' = Some (JStr ''second'')"
    by blast
  with g i
  show "\<exists>doc mods s t1 t2.
      genImports_dg [] ?r (ast_imports shadow_ast) = Some (Inr (doc, mods, s)) \<and>
      dg_importMap s ''a'' \<noteq> None \<and> ''a'' \<in> dg_seenSyms s \<and>
      regSym_dg ''a'' (JStr ''first'') s = Inr t1 \<and> dg_out t1 ''a'' = Some (JStr ''first'') \<and>
      regSym_dg ''a'' (JStr ''second'') t1 = Inr t2 \<and> dg_out t2 ''a'' = Some (JStr ''second'')"
    by (intro exI [of _ doc] exI [of _ mods] exI [of _ s] exI [of _ t1] exI [of _ t2] conjI)
next
  show "dg_document twice_ast = Some (Inl (PySmiSemanticError (DuplicateSymbol ''a'')))"
    by code_simp
next
  show "dg_record shadow_ast ''a'' =
     Some (JObj [(''name'', JStr ''a''), (''oid'', JStr ''1.2''), (''class'', JStr ''objectidentity'')])"
    by code_simp
qed

end
